theory Spec2Isabelle
  imports Main "HOL-Library.Word"
begin

unbundle bit_operations_syntax

section \<open>The TCP authentication datapath of the enforcer\<close>

text \<open>
  A shallow embedding of \<^verbatim>\<open>enforcer/datapath_tcp.go\<close> and of the connection
  types of the enforcer package. Pointers to connections and to PU contexts are
  addresses into two stores carried by the datapath, because one connection is held by
  several caches at once and is mutated through any of them. A Go function that returns
  \<^verbatim>\<open>(value, error)\<close> returns a tuple with an \<open>error option\<close> (\<open>None\<close> is
  \<^verbatim>\<open>nil\<close>). Locks and logging are left out: the model is sequential.
\<close>

subsection \<open>Bytes, strings and numbers\<close>

type_synonym bytes = "8 word list"

text \<open>An IPv4 address, and \<^verbatim>\<open>net.IP.String()\<close> on it (dotted decimal).\<close>

type_synonym IP = "8 word \<times> 8 word \<times> 8 word \<times> 8 word"

definition digit :: "nat \<Rightarrow> char" where
  "digit n = ''0123456789'' ! (n mod 10)"

function digits :: "nat \<Rightarrow> string" where
  "digits n = (if n < 10 then [digit n] else digits (n div 10) @ [digit n])"
  by pat_completeness auto
termination
  by (relation "measure id") auto

declare digits.simps [simp del]

text \<open>\<^verbatim>\<open>strconv.Itoa\<close>.\<close>

definition Itoa :: "int \<Rightarrow> string" where
  "Itoa i = (if i < 0 then CHR ''-'' # digits (nat (- i)) else digits (nat i))"

definition IP_String :: "IP \<Rightarrow> string" where
  "IP_String a = (case a of (b1, b2, b3, b4) \<Rightarrow>
     digits (unat b1) @ ''.'' @ digits (unat b2) @ ''.'' @ digits (unat b3) @ ''.'' @ digits (unat b4))"

text \<open>The number that a string of decimal digits denotes.\<close>

definition digit_val :: "char \<Rightarrow> nat" where
  "digit_val c = of_char c - 48"

definition number_of_digits :: "string \<Rightarrow> nat" where
  "number_of_digits s = foldl (\<lambda>a c. 10 * a + digit_val c) 0 s"

subsection \<open>Errors\<close>

text \<open>
  One constructor for each \<^verbatim>\<open>fmt.Errorf\<close> of the file; \<open>External\<close> is an error
  handed back by a collaborator (token engine, packet library, cache).
\<close>

datatype error =
    External string
  | PreServiceFailedNet
  | PacketProcessingFailedNet error
  | PostServiceFailedNet
  | PreServiceFailedApp
  | ProcessingFailedApp error
  | PostServiceFailedApp
  | ReceivedSynAckInWrongState
  | ProtocolError nat
  | ReceivedAppAckInWrongState
  | DropIt
  | SynDroppedInvalidToken
  | AuthOptionNotFound
  | SynDroppedInvalidFormat
  | RejectedByPolicy
  | NoMatchedTags
  | SynAckDroppedMissingToken
  | SynAckDroppedBadClaims
  | SynAckDroppedInvalidFormat
  | RejectRuleOnTransmitter
  | DroppingSynAckAtNetwork
  | AckDroppedSignature error
  | AckDroppedInvalidFormat
  | AckDroppedInvalidState
  | FailedToMatchContext
  | NoTransmitterLabel
  | NoContextInAppProcessing
  | AppStateNotFound
  | NoContextFound
  | NoContextInNetProcessing
  | NoSynackConnection
  | NetStateNotFound
  | IPMustBePopulated
  | NoContextForMark
  | NoContextForPort
  | NilDereference

subsection \<open>Caches\<close>

text \<open>
  Modelled from the spec: the \<^verbatim>\<open>cache\<close> package, which is not among the sources.
  The spec gives its operations (get, add-or-update, remove, set-time-out, keyed by
  strings); a lookup or removal of an absent key is an error. Expiry of entries with
  time is not modelled; the time-out last set for a key is recorded.
\<close>

record 'v Cache =
  entries :: "string \<rightharpoonup> 'v"
  timeouts :: "string \<rightharpoonup> nat"

definition emptyCache :: "'v Cache" where
  "emptyCache = \<lparr>entries = Map.empty, timeouts = Map.empty\<rparr>"

definition cache_Get :: "'v Cache \<Rightarrow> string \<Rightarrow> 'v option" where
  "cache_Get c k = entries c k"

text \<open>\<^verbatim>\<open>GetReset(k, 0)\<close>: a lookup that restarts the entry's timer with its own time-out.\<close>

definition cache_GetReset :: "'v Cache \<Rightarrow> string \<Rightarrow> 'v option" where
  "cache_GetReset c k = entries c k"

definition cache_AddOrUpdate :: "'v Cache \<Rightarrow> string \<Rightarrow> 'v \<Rightarrow> 'v Cache" where
  "cache_AddOrUpdate c k v = c\<lparr>entries := (entries c)(k \<mapsto> v)\<rparr>"

definition cache_Add :: "'v Cache \<Rightarrow> string \<Rightarrow> 'v \<Rightarrow> error option \<times> 'v Cache" where
  "cache_Add c k v =
     (if k \<in> dom (entries c) then (Some (External ''Item Exists''), c)
      else (None, c\<lparr>entries := (entries c)(k \<mapsto> v)\<rparr>))"

definition cache_Remove :: "'v Cache \<Rightarrow> string \<Rightarrow> error option \<times> 'v Cache" where
  "cache_Remove c k =
     (if k \<in> dom (entries c)
      then (None, c\<lparr>entries := (entries c)(k := None), timeouts := (timeouts c)(k := None)\<rparr>)
      else (Some (External ''Not found''), c))"

definition cache_SetTimeOut :: "'v Cache \<Rightarrow> string \<Rightarrow> nat \<Rightarrow> error option \<times> 'v Cache" where
  "cache_SetTimeOut c k t =
     (if k \<in> dom (entries c) then (None, c\<lparr>timeouts := (timeouts c)(k \<mapsto> t)\<rparr>)
      else (Some (External ''Not found''), c))"

subsection \<open>Packets\<close>

text \<open>
  The fields of \<^verbatim>\<open>packet.Packet\<close> that the datapath reads. The packet package is
  not among the sources: its operations that rewrite a packet are parameters of the model
  (record \<open>Externals\<close> below), so every theorem holds for any packet library.
\<close>

record Packet =
  SourceAddress :: IP
  DestinationAddress :: IP
  SourcePort :: "16 word"
  DestinationPort :: "16 word"
  IPProto :: "8 word"
  TCPFlags :: "8 word"
  Mark :: string
  tcpOptions :: bytes
  tcpData :: bytes

datatype PacketType = PacketTypeNetwork | PacketTypeApplication

text \<open>
  Modelled from the spec: the flag constants of the packet package, which is not among
  the sources. They are the SYN and ACK bits of the TCP flag byte and the mask
  \<open>SYN|ACK\<close> by which the spec classifies a segment.
\<close>

definition TCPSynMask :: "8 word" where "TCPSynMask = 0x02"
definition TCPAckMask :: "8 word" where "TCPAckMask = 0x10"
definition TCPSynAckMask :: "8 word" where "TCPSynAckMask = 0x12"

text \<open>
  Modelled from the spec: the base length of the authentication option (kind, length and
  two reserved bytes) is 4.
\<close>

definition TCPAuthenticationOptionBaseLen :: nat where
  "TCPAuthenticationOptionBaseLen = 4"

text \<open>Modelled from the spec: \<^verbatim>\<open>ReadTCPData\<close> returns the payload window of the packet.\<close>

definition ReadTCPData :: "Packet \<Rightarrow> bytes" where
  "ReadTCPData p = tcpData p"

subsection \<open>Policies, claims and rule sets\<close>

record FlowPolicy =
  Action :: int
  PolicyID :: string

text \<open>
  Modelled from the spec: the tag store of the policy package (a tag-value set carried in
  a token), kept as an ordered list of key-value pairs.
\<close>

type_synonym TagStore = "(string \<times> string) list"

definition TagStore_Get :: "TagStore \<Rightarrow> string \<Rightarrow> string \<times> bool" where
  "TagStore_Get t k = (case map_of t k of None \<Rightarrow> ([], False) | Some v \<Rightarrow> (v, True))"

definition AppendKeyValue :: "TagStore \<Rightarrow> string \<Rightarrow> string \<Rightarrow> TagStore" where
  "AppendKeyValue t k v = t @ [(k, v)]"

text \<open>
  Modelled from the spec: a rule set is an ordered list of (tag selector, flow policy), and
  \<open>Search\<close> returns the first matching rule with its index, or a negative index. A
  selector is any predicate on tag stores.
\<close>

type_synonym RuleSet = "((TagStore \<Rightarrow> bool) \<times> FlowPolicy) list"

fun SearchFrom :: "int \<Rightarrow> RuleSet \<Rightarrow> TagStore \<Rightarrow> int \<times> FlowPolicy option" where
  "SearchFrom i [] t = (-1, None)"
| "SearchFrom i ((sel, plc) # rs) t = (if sel t then (i, Some plc) else SearchFrom (i + 1) rs t)"

definition Search :: "RuleSet \<Rightarrow> TagStore \<Rightarrow> int \<times> FlowPolicy option" where
  "Search rs t = SearchFrom 0 rs t"

text \<open>
  \<^verbatim>\<open>ACL.GetMatchingAction(ip, port)\<close> of an ACL set: the policy for an unprotected
  peer, or an error. The ACL package is not among the sources, so an ACL set is the
  function it computes.
\<close>

type_synonym ACL = "IP \<Rightarrow> 16 word \<Rightarrow> error + FlowPolicy"

definition GetMatchingAction :: "ACL \<Rightarrow> IP \<Rightarrow> 16 word \<Rightarrow> error + FlowPolicy" where
  "GetMatchingAction acl ip port = acl ip port"

type_synonym PublicKey = bytes

record ConnectionClaims =
  T :: TagStore
  LCL :: bytes
  RMT :: bytes

subsection \<open>Connections and PU contexts\<close>

datatype TCPFlowState =
  TCPSynSend | TCPSynReceived | TCPSynAckSend | TCPSynAckReceived | TCPAckSend | TCPData

record AuthInfo =
  LocalContext :: bytes
  RemoteContext :: bytes
  LocalContextID :: string
  RemoteContextID :: string
  RemotePublicKey :: "PublicKey option"
  RemoteIP :: string
  RemotePort :: string

text \<open>
  \<open>Context\<close> is the address of the owning PU context (\<open>None\<close> is \<^verbatim>\<open>nil\<close>).
  The fields after \<open>Auth\<close> are those the datapath uses and the spec lists.
\<close>

record TCPConnection =
  State :: TCPFlowState
  Auth :: AuthInfo
  Context :: "nat option"
  FlowPolicy :: "FlowPolicy option"
  ServiceConnection :: bool
  TimeOut :: nat

datatype PUType = ContainerPU | LinuxProcessPU | TransientPU

record PUContext =
  ManagementID :: string
  PUType :: PUType
  Identity :: TagStore
  AcceptRcvRules :: RuleSet
  RejectRcvRules :: RuleSet
  AcceptTxtRules :: RuleSet
  RejectTxtRules :: RuleSet
  NetworkACLS :: ACL
  ApplicationACLs :: ACL
  externalIPCache :: "FlowPolicy Cache"
  synToken :: bytes
  synExpiration :: nat

text \<open>\<^verbatim>\<open>&PUContext{PUType: t}\<close>: every other field has its zero value.\<close>

definition zeroPUContext :: "PUType \<Rightarrow> PUContext" where
  "zeroPUContext t = \<lparr>ManagementID = [], PUType = t, Identity = [],
     AcceptRcvRules = [], RejectRcvRules = [], AcceptTxtRules = [], RejectTxtRules = [],
     NetworkACLS = (\<lambda>ip port. Inl NilDereference),
     ApplicationACLs = (\<lambda>ip port. Inl NilDereference),
     externalIPCache = emptyCache, synToken = [], synExpiration = 0\<rparr>"

subsection \<open>Collaborators and the datapath\<close>

text \<open>
  The service plug-in (\<^verbatim>\<open>d.service\<close>): four hooks that return a boolean.
\<close>

record ServiceHooks =
  PreProcessTCPAppPacket :: "Packet \<Rightarrow> PUContext \<Rightarrow> TCPConnection \<Rightarrow> bool"
  PostProcessTCPAppPacket :: "Packet \<Rightarrow> FlowPolicy option \<Rightarrow> PUContext \<Rightarrow> TCPConnection \<Rightarrow> bool"
  PreProcessTCPNetPacket :: "Packet \<Rightarrow> PUContext \<Rightarrow> TCPConnection \<Rightarrow> bool"
  PostProcessTCPNetPacket ::
    "Packet \<Rightarrow> FlowPolicy option \<Rightarrow> ConnectionClaims option \<Rightarrow> PUContext \<Rightarrow> TCPConnection \<Rightarrow> bool"

text \<open>
  What the file takes from packages that are not among the sources, as parameters:
  the packet library, the token engine (\<^verbatim>\<open>d.tokenEngine\<close>), the service plug-in,
  the random source, the clock and the package-level constants. A Go function that
  returns \<^verbatim>\<open>(a, b, err)\<close> is a function into a tuple, since the callers assign
  \<open>a\<close> and \<open>b\<close> before they test \<open>err\<close>. \<open>Randomize\<close> writes the new nonce
  into the token it is given: its first result is that token after the call, its second
  the nonce. \<open>timeNow k\<close> is the \<open>k\<close>-th reading of the clock while one packet is
  processed.
\<close>

record Externals =
  CheckTCPAuthenticationOption :: "nat \<Rightarrow> Packet \<Rightarrow> error option"
  TCPDataAttach :: "bytes \<Rightarrow> bytes \<Rightarrow> Packet \<Rightarrow> error option \<times> Packet"
  TCPDataDetach :: "nat \<Rightarrow> Packet \<Rightarrow> error option \<times> Packet"
  DropDetachedBytes :: "Packet \<Rightarrow> Packet"
  UpdateTCPChecksum :: "Packet \<Rightarrow> Packet"
  L4FlowHash :: "Packet \<Rightarrow> string"
  L4ReverseFlowHash :: "Packet \<Rightarrow> string"
  SourcePortHash :: "PacketType \<Rightarrow> Packet \<Rightarrow> string"
  CreateAndSign :: "bool \<Rightarrow> ConnectionClaims \<Rightarrow> bytes \<times> bytes \<times> error option"
  Decode :: "bool \<Rightarrow> bytes \<Rightarrow> PublicKey option
               \<Rightarrow> ConnectionClaims \<times> bytes \<times> PublicKey option \<times> error option"
  Randomize :: "bytes \<Rightarrow> bytes \<times> bytes \<times> error option"
  service :: "ServiceHooks option"
  GenerateRandomBytes :: "nat \<Rightarrow> bytes \<times> error option"
  timeNow :: "nat \<Rightarrow> nat"
  TCPAuthenticationOption :: "8 word"
  Initialmarkval :: int
  DefaultNetwork :: string
  DefaultConnMark :: "32 word"
  policy_Reject :: int
  TransmitterLabel :: string
  PortNumberLabelString :: string
  DefaultEndPoint :: string

text \<open>\<^verbatim>\<open>time.Millisecond\<close>: times and durations count nanoseconds.\<close>

definition Millisecond :: nat where
  "Millisecond = 1000000"

datatype ModeType = RemoteContainer | LocalContainer | LocalServer

datatype Reason =
  InvalidToken | MissingToken | InvalidFormat | PolicyDrop | InvalidState | ServiceFailure

text \<open>
  Modelled from the spec: the reporting helpers of the datapath (\<^verbatim>\<open>reportAcceptedFlow\<close>,
  \<^verbatim>\<open>reportRejectedFlow\<close>, \<^verbatim>\<open>reportExternalServiceFlow\<close>,
  \<^verbatim>\<open>reportReverseExternalServiceFlow\<close>) are not among the sources; each call hands
  one record to the collector, kept here with the arguments of the call (the connection
  and the context by address).
\<close>

datatype FlowReport =
    AcceptedFlow Packet nat string string nat "FlowPolicy option"
  | RejectedFlow Packet "nat option" string string nat Reason "FlowPolicy option"
  | ExternalServiceFlow nat "FlowPolicy option" bool Packet
  | ReverseExternalServiceFlow nat "FlowPolicy option" bool Packet

text \<open>One call of \<^verbatim>\<open>ConntrackTableUpdateMark\<close>; its error is only logged.\<close>

type_synonym ConntrackCall = "string \<times> string \<times> 8 word \<times> 16 word \<times> 16 word \<times> 32 word"

record Datapath =
  mode :: ModeType
  mutualAuthorization :: bool
  ackSize :: "32 word"
  appOrigConnectionTracker :: "nat Cache"
  appReplyConnectionTracker :: "nat Cache"
  netOrigConnectionTracker :: "nat Cache"
  netReplyConnectionTracker :: "nat Cache"
  sourcePortConnectionCache :: "nat Cache"
  puFromIP :: "nat Cache"
  puFromMark :: "nat Cache"
  puFromPort :: "nat Cache"
  conns :: "nat \<Rightarrow> TCPConnection"
  connCount :: nat
  contexts :: "nat \<Rightarrow> PUContext"
  contextCount :: nat
  collector :: "FlowReport list"
  conntrackHdl :: "ConntrackCall list"

definition updConn :: "Datapath \<Rightarrow> nat \<Rightarrow> (TCPConnection \<Rightarrow> TCPConnection) \<Rightarrow> Datapath" where
  "updConn d c f = d\<lparr>conns := (conns d)(c := f (conns d c))\<rparr>"

definition updContext :: "Datapath \<Rightarrow> nat \<Rightarrow> (PUContext \<Rightarrow> PUContext) \<Rightarrow> Datapath" where
  "updContext d c f = d\<lparr>contexts := (contexts d)(c := f (contexts d c))\<rparr>"

definition GetState :: "Datapath \<Rightarrow> nat \<Rightarrow> TCPFlowState" where
  "GetState d c = State (conns d c)"

definition SetState :: "Datapath \<Rightarrow> nat \<Rightarrow> TCPFlowState \<Rightarrow> Datapath" where
  "SetState d c s = updConn d c (\<lambda>k. k\<lparr>State := s\<rparr>)"

definition report :: "Datapath \<Rightarrow> FlowReport \<Rightarrow> Datapath" where
  "report d r = d\<lparr>collector := collector d @ [r]\<rparr>"

definition ConntrackTableUpdateMark :: "Datapath \<Rightarrow> ConntrackCall \<Rightarrow> Datapath" where
  "ConntrackTableUpdateMark d c = d\<lparr>conntrackHdl := conntrackHdl d @ [c]\<rparr>"

subsection \<open>Connections: \<^verbatim>\<open>initAuthInfo\<close> and \<^verbatim>\<open>NewTCPConnection\<close>\<close>

definition zeroAuthInfo :: AuthInfo where
  "zeroAuthInfo = \<lparr>LocalContext = [], RemoteContext = [], LocalContextID = [],
     RemoteContextID = [], RemotePublicKey = None, RemoteIP = [], RemotePort = []\<rparr>"

definition initAuthInfo :: "Externals \<Rightarrow> AuthInfo \<Rightarrow> AuthInfo" where
  "initAuthInfo X s = (let (nonse, _) = GenerateRandomBytes X 32 in s\<lparr>LocalContext := nonse\<rparr>)"

text \<open>The new connection is stored at the next free address, which is returned.\<close>

definition NewTCPConnection :: "Externals \<Rightarrow> Datapath \<Rightarrow> nat \<times> Datapath" where
  "NewTCPConnection X d =
     (let c = \<lparr>State = TCPSynSend, Auth = initAuthInfo X zeroAuthInfo, Context = None,
                FlowPolicy = None, ServiceConnection = False, TimeOut = 0\<rparr>
      in (connCount d, d\<lparr>conns := (conns d)(connCount d := c), connCount := connCount d + 1\<rparr>))"

subsection \<open>Token wrappers\<close>

text \<open>
  The wrappers take the PU context and the authentication information by pointer; here
  they return the updated values, which the caller stores back.
\<close>

definition createAckPacketToken :: "Externals \<Rightarrow> PUContext \<Rightarrow> AuthInfo \<Rightarrow> bytes \<times> error option" where
  "createAckPacketToken X context auth =
     (let claims = \<lparr>T = [], LCL = LocalContext auth, RMT = RemoteContext auth\<rparr>;
          (token, _, err) = CreateAndSign X True claims
      in if err \<noteq> None then ([], err) else (token, None))"

definition createSynPacketToken ::
  "Externals \<Rightarrow> PUContext \<Rightarrow> AuthInfo \<Rightarrow> bytes \<times> error option \<times> PUContext \<times> AuthInfo" where
  "createSynPacketToken X context auth =
     (let reuse = (timeNow X 0 < synExpiration context \<and> length (synToken context) > 0);
          (tok1, nonce1, err1) = Randomize X (synToken context);
          context1 = (if reuse then context\<lparr>synToken := tok1\<rparr> else context);
          auth1 = (if reuse then auth\<lparr>LocalContext := nonce1\<rparr> else auth)
      in if reuse \<and> err1 = None then (synToken context1, None, context1, auth1)
         else
           (let claims = \<lparr>T = Identity context1, LCL = [], RMT = []\<rparr>;
                (tok2, nonce2, err2) = CreateAndSign X False claims;
                context2 = context1\<lparr>synToken := tok2\<rparr>;
                auth2 = auth1\<lparr>LocalContext := nonce2\<rparr>
            in if err2 \<noteq> None then ([], None, context2, auth2)
               else (let context3 = context2\<lparr>synExpiration := timeNow X 1 + Millisecond * 500\<rparr>
                     in (synToken context3, None, context3, auth2))))"

definition createSynAckPacketToken ::
  "Externals \<Rightarrow> PUContext \<Rightarrow> AuthInfo \<Rightarrow> bytes \<times> error option \<times> PUContext \<times> AuthInfo" where
  "createSynAckPacketToken X context auth =
     (let claims = \<lparr>T = Identity context, LCL = [], RMT = RemoteContext auth\<rparr>;
          (tok, nonce, err) = CreateAndSign X False claims;
          context1 = context\<lparr>synToken := tok\<rparr>;
          auth1 = auth\<lparr>LocalContext := nonce\<rparr>
      in if err \<noteq> None then ([], None, context1, auth1)
         else (synToken context1, None, context1, auth1))"

definition parsePacketToken ::
  "Externals \<Rightarrow> AuthInfo \<Rightarrow> bytes \<Rightarrow> ConnectionClaims option \<times> error option \<times> AuthInfo" where
  "parsePacketToken X auth data =
     (let (claims, nonce, cert, err) = Decode X False data (RemotePublicKey auth)
      in if err \<noteq> None then (None, err, auth)
         else (let (remoteContextID, ok) = TagStore_Get (T claims) (TransmitterLabel X)
               in if \<not> ok then (None, Some NoTransmitterLabel, auth)
                  else (Some claims, None,
                        auth\<lparr>RemotePublicKey := cert, RemoteContext := nonce,
                             RemoteContextID := remoteContextID\<rparr>)))"

text \<open>\<^verbatim>\<open>bytes.Compare\<close> is zero exactly when the two byte strings are equal.\<close>

definition parseAckToken ::
  "Externals \<Rightarrow> AuthInfo \<Rightarrow> bytes \<Rightarrow> ConnectionClaims option \<times> error option" where
  "parseAckToken X auth data =
     (let (claims, _, _, err) = Decode X True data (RemotePublicKey auth)
      in if err \<noteq> None then (None, err)
         else (let matchLocal = (RMT claims = LocalContext auth);
                   matchRemote = (LCL claims = RemoteContext auth)
               in if \<not> matchLocal \<or> \<not> matchRemote then (None, Some FailedToMatchContext)
                  else (Some claims, None)))"

definition createTCPAuthenticationOption :: "Externals \<Rightarrow> bytes \<Rightarrow> bytes" where
  "createTCPAuthenticationOption X token =
     (let tokenLen = (of_nat (length token) :: 8 word);
          options = [TCPAuthenticationOption X, of_nat TCPAuthenticationOptionBaseLen + tokenLen, 0, 0]
      in if tokenLen \<noteq> 0 then options @ token else options)"

subsection \<open>Application-side handlers\<close>

text \<open>
  A handler takes the addresses of the PU context and of the connection and returns the
  action, the error, the datapath after the call and the packet after the call.
\<close>

type_synonym AppResult = "FlowPolicy option \<times> error option \<times> Datapath \<times> Packet"

definition processApplicationSynPacket ::
  "Externals \<Rightarrow> Datapath \<Rightarrow> Packet \<Rightarrow> nat \<Rightarrow> nat \<Rightarrow> AppResult" where
  "processApplicationSynPacket X d tcpPacket context conn =
     (case cache_Get (externalIPCache (contexts d context))
             (IP_String (DestinationAddress tcpPacket) @ '':'' @ Itoa (uint (DestinationPort tcpPacket))) of
        Some policy \<Rightarrow>
          (let d1 = d\<lparr>appOrigConnectionTracker :=
                       cache_AddOrUpdate (appOrigConnectionTracker d) (L4FlowHash X tcpPacket) conn\<rparr>;
               d2 = d1\<lparr>sourcePortConnectionCache :=
                       cache_AddOrUpdate (sourcePortConnectionCache d1)
                         (SourcePortHash X PacketTypeApplication tcpPacket) conn\<rparr>
           in (Some policy, None, d2, tcpPacket))
      | None \<Rightarrow>
          (let tcpOptions = createTCPAuthenticationOption X [];
               (tcpData, err, context', auth') =
                  createSynPacketToken X (contexts d context) (Auth (conns d conn));
               d1 = updConn (updContext d context (\<lambda>_. context')) conn (\<lambda>k. k\<lparr>Auth := auth'\<rparr>)
           in if err \<noteq> None then (None, err, d1, tcpPacket)
              else
                (let hash = L4FlowHash X tcpPacket;
                     d2 = SetState d1 conn TCPSynSend;
                     d3 = d2\<lparr>appOrigConnectionTracker :=
                             cache_AddOrUpdate (appOrigConnectionTracker d2) hash conn\<rparr>;
                     d4 = d3\<lparr>sourcePortConnectionCache :=
                             cache_AddOrUpdate (sourcePortConnectionCache d3)
                               (SourcePortHash X PacketTypeApplication tcpPacket) conn\<rparr>;
                     (aerr, p') = TCPDataAttach X tcpOptions tcpData tcpPacket
                 in (None, aerr, d4, p'))))"

definition processApplicationSynAckPacket ::
  "Externals \<Rightarrow> Datapath \<Rightarrow> Packet \<Rightarrow> nat \<Rightarrow> nat \<Rightarrow> AppResult" where
  "processApplicationSynAckPacket X d tcpPacket context conn =
     (if GetState d conn = TCPData \<and> \<not> ServiceConnection (conns d conn) then
        (let d1 = ConntrackTableUpdateMark d
                    (IP_String (DestinationAddress tcpPacket), IP_String (SourceAddress tcpPacket),
                     IPProto tcpPacket, DestinationPort tcpPacket, SourcePort tcpPacket,
                     DefaultConnMark X);
             (err1, c1) = cache_Remove (netOrigConnectionTracker d1) (L4FlowHash X tcpPacket);
             d2 = d1\<lparr>netOrigConnectionTracker := c1\<rparr>;
             (err2, c2) = cache_Remove (appReplyConnectionTracker d2) (L4ReverseFlowHash X tcpPacket);
             d3 = d2\<lparr>appReplyConnectionTracker := c2\<rparr>
         in (None, None, d3, tcpPacket))
      else if GetState d conn = TCPSynReceived \<or> GetState d conn = TCPSynAckSend then
        (let d1 = SetState d conn TCPSynAckSend;
             tcpOptions = createTCPAuthenticationOption X [];
             (tcpData, err, context', auth') =
                createSynAckPacketToken X (contexts d1 context) (Auth (conns d1 conn));
             d2 = updConn (updContext d1 context (\<lambda>_. context')) conn (\<lambda>k. k\<lparr>Auth := auth'\<rparr>)
         in if err \<noteq> None then (None, err, d2, tcpPacket)
            else (let (aerr, p') = TCPDataAttach X tcpOptions tcpData tcpPacket
                  in (None, aerr, d2, p')))
      else (None, Some ReceivedSynAckInWrongState, d, tcpPacket))"

definition processApplicationAckPacket ::
  "Externals \<Rightarrow> Datapath \<Rightarrow> Packet \<Rightarrow> nat \<Rightarrow> nat \<Rightarrow> AppResult" where
  "processApplicationAckPacket X d tcpPacket context conn =
     (if GetState d conn = TCPData then (None, None, d, tcpPacket)
      else if GetState d conn = TCPSynAckReceived \<or> GetState d conn = TCPSynSend then
        (let (token, err) = createAckPacketToken X (contexts d context) (Auth (conns d conn))
         in if err \<noteq> None then (None, err, d, tcpPacket)
            else
              (let tcpOptions = createTCPAuthenticationOption X []
               in if int (length token) \<noteq> uint (ackSize d)
                  then (None, Some (ProtocolError (length token)), d, tcpPacket)
                  else
                    (let (aerr, p') = TCPDataAttach X tcpOptions token tcpPacket
                     in if aerr \<noteq> None then (None, aerr, d, p')
                        else
                          (let d1 = SetState d conn TCPAckSend;
                               d2 = (if \<not> ServiceConnection (conns d1 conn) \<and>
                                        IP_String (SourceAddress p') \<noteq> IP_String (DestinationAddress p')
                                     then ConntrackTableUpdateMark d1
                                            (IP_String (SourceAddress p'), IP_String (DestinationAddress p'),
                                             IPProto p', SourcePort p', DestinationPort p',
                                             DefaultConnMark X)
                                     else d1)
                           in (None, None, d2, p')))))
      else if GetState d conn = TCPAckSend then
        (let (err, c) = cache_Remove (sourcePortConnectionCache d)
                          (SourcePortHash X PacketTypeApplication tcpPacket);
             d1 = d\<lparr>sourcePortConnectionCache := c\<rparr>;
             d2 = SetState d1 conn TCPData
         in (None, None, d2, tcpPacket))
      else (None, Some ReceivedAppAckInWrongState, d, tcpPacket))"

text \<open>
  \<^verbatim>\<open>processApplicationTCPPacket\<close>: the dispatch on the flag bits. The connection
  may be \<^verbatim>\<open>nil\<close>.
\<close>

definition processApplicationTCPPacket ::
  "Externals \<Rightarrow> Datapath \<Rightarrow> Packet \<Rightarrow> nat \<Rightarrow> nat option \<Rightarrow> AppResult" where
  "processApplicationTCPPacket X d tcpPacket context conn =
     (case conn of
        None \<Rightarrow> (None, None, d, tcpPacket)
      | Some c \<Rightarrow>
          (if TCPFlags tcpPacket AND TCPSynAckMask = TCPSynMask
             then processApplicationSynPacket X d tcpPacket context c
           else if TCPFlags tcpPacket AND TCPSynAckMask = TCPAckMask
             then processApplicationAckPacket X d tcpPacket context c
           else if TCPFlags tcpPacket AND TCPSynAckMask = TCPSynAckMask
             then processApplicationSynAckPacket X d tcpPacket context c
           else (None, None, d, tcpPacket)))"

subsection \<open>Network-side handlers\<close>

type_synonym NetResult =
  "FlowPolicy option \<times> ConnectionClaims option \<times> error option \<times> Datapath \<times> Packet"

definition releaseFlow :: "Externals \<Rightarrow> Datapath \<Rightarrow> nat \<Rightarrow> FlowPolicy option \<Rightarrow> Packet \<Rightarrow> Datapath" where
  "releaseFlow X d context plc tcpPacket =
     (let (lerr1, c1) = cache_Remove (appOrigConnectionTracker d) (L4FlowHash X tcpPacket);
          d1 = d\<lparr>appOrigConnectionTracker := c1\<rparr>;
          (lerr2, c2) = cache_Remove (sourcePortConnectionCache d1)
                          (SourcePortHash X PacketTypeApplication tcpPacket);
          d2 = d1\<lparr>sourcePortConnectionCache := c2\<rparr>;
          d3 = ConntrackTableUpdateMark d2
                 (IP_String (DestinationAddress tcpPacket), IP_String (SourceAddress tcpPacket),
                  IPProto tcpPacket, DestinationPort tcpPacket, SourcePort tcpPacket,
                  DefaultConnMark X)
      in report d3 (ReverseExternalServiceFlow context plc True tcpPacket))"

definition processNetworkSynPacket ::
  "Externals \<Rightarrow> Datapath \<Rightarrow> nat \<Rightarrow> nat \<Rightarrow> Packet \<Rightarrow> NetResult" where
  "processNetworkSynPacket X d context conn tcpPacket =
     (if CheckTCPAuthenticationOption X TCPAuthenticationOptionBaseLen tcpPacket \<noteq> None then
        (let r = GetMatchingAction (NetworkACLS (contexts d context))
                   (SourceAddress tcpPacket) (DestinationPort tcpPacket);
             plc = (case r of Inl _ \<Rightarrow> None | Inr q \<Rightarrow> Some q);
             d1 = report d (ExternalServiceFlow context plc False tcpPacket)
         in case r of
              Inl perr \<Rightarrow> (None, None, Some DropIt, d1, tcpPacket)
            | Inr q \<Rightarrow>
                if Action q = policy_Reject X then (None, None, Some DropIt, d1, tcpPacket)
                else
                  (let d2 = SetState d1 conn TCPData;
                       d3 = d2\<lparr>netOrigConnectionTracker :=
                               cache_AddOrUpdate (netOrigConnectionTracker d2) (L4FlowHash X tcpPacket) conn\<rparr>;
                       d4 = d3\<lparr>appReplyConnectionTracker :=
                               cache_AddOrUpdate (appReplyConnectionTracker d3)
                                 (L4ReverseFlowHash X tcpPacket) conn\<rparr>
                   in (Some q, None, None, d4, tcpPacket)))
      else
        (let (claims, err, auth') = parsePacketToken X (Auth (conns d conn)) (ReadTCPData tcpPacket);
             d1 = updConn d conn (\<lambda>k. k\<lparr>Auth := auth'\<rparr>);
             mid = ManagementID (contexts d1 context)
         in case claims of
              None \<Rightarrow>
                (None, None, Some SynDroppedInvalidToken,
                 report d1 (RejectedFlow tcpPacket (Some conn) (DefaultEndPoint X) mid context InvalidToken None),
                 tcpPacket)
            | Some cl \<Rightarrow>
                if err \<noteq> None then
                  (None, None, Some SynDroppedInvalidToken,
                   report d1 (RejectedFlow tcpPacket (Some conn) (DefaultEndPoint X) mid context InvalidToken None),
                   tcpPacket)
                else
                  (let (txLabel, ok) = TagStore_Get (T cl) (TransmitterLabel X)
                   in if \<not> ok \<or> CheckTCPAuthenticationOption X TCPAuthenticationOptionBaseLen tcpPacket \<noteq> None
                      then (None, None, Some AuthOptionNotFound,
                            report d1 (RejectedFlow tcpPacket (Some conn) txLabel mid context InvalidFormat None),
                            tcpPacket)
                      else
                        (let (derr, p1) = TCPDataDetach X TCPAuthenticationOptionBaseLen tcpPacket
                         in if derr \<noteq> None
                            then (None, None, Some SynDroppedInvalidFormat,
                                  report d1 (RejectedFlow p1 (Some conn) txLabel mid context InvalidFormat None),
                                  p1)
                            else
                              (let p2 = DropDetachedBytes X p1;
                                   cl1 = cl\<lparr>T := AppendKeyValue (T cl) (PortNumberLabelString X)
                                                   (Itoa (uint (DestinationPort p2)))\<rparr>;
                                   (ri, rplc) = Search (RejectRcvRules (contexts d1 context)) (T cl1)
                               in if ri \<ge> 0
                                  then (None, None, Some RejectedByPolicy,
                                        report d1 (RejectedFlow p2 (Some conn) txLabel mid context PolicyDrop rplc),
                                        p2)
                                  else
                                    (let (ai, action) = Search (AcceptRcvRules (contexts d1 context)) (T cl1)
                                     in if ai \<ge> 0
                                        then
                                          (let hash = L4FlowHash X p2;
                                               d2 = SetState d1 conn TCPSynReceived;
                                               d3 = d2\<lparr>netOrigConnectionTracker :=
                                                       cache_AddOrUpdate (netOrigConnectionTracker d2) hash conn\<rparr>;
                                               d4 = d3\<lparr>appReplyConnectionTracker :=
                                                       cache_AddOrUpdate (appReplyConnectionTracker d3)
                                                         (L4ReverseFlowHash X p2) conn\<rparr>;
                                               d5 = updConn d4 conn (\<lambda>k. k\<lparr>FlowPolicy := action\<rparr>)
                                           in (action, Some cl1, None, d5, p2))
                                        else (None, None, Some NoMatchedTags,
                                              report d1 (RejectedFlow p2 (Some conn) txLabel mid context PolicyDrop None),
                                              p2)))))))"

text \<open>
  The SYN-ACK handler also points the packet's \<^verbatim>\<open>ConnectionMetadata\<close> at the
  connection's authentication information; the datapath never reads that field, and the
  packet record does not carry it.
\<close>

definition processNetworkSynAckPacket ::
  "Externals \<Rightarrow> Datapath \<Rightarrow> nat \<Rightarrow> nat \<Rightarrow> Packet \<Rightarrow> NetResult" where
  "processNetworkSynAckPacket X d context conn tcpPacket =
     (if CheckTCPAuthenticationOption X TCPAuthenticationOptionBaseLen tcpPacket \<noteq> None then
        (let flowHash = IP_String (SourceAddress tcpPacket) @ '':'' @ Itoa (uint (SourcePort tcpPacket))
         in case cache_Get (externalIPCache (contexts d context)) flowHash of
              Some plc \<Rightarrow> (Some plc, None, None, releaseFlow X d context (Some plc) tcpPacket, tcpPacket)
            | None \<Rightarrow>
                (case GetMatchingAction (ApplicationACLs (contexts d context))
                        (SourceAddress tcpPacket) (SourcePort tcpPacket) of
                   Inl err \<Rightarrow>
                     (None, None, Some DropIt,
                      report d (ExternalServiceFlow context None True tcpPacket), tcpPacket)
                 | Inr plc \<Rightarrow>
                     if Action plc AND policy_Reject X > 0
                     then (None, None, Some DropIt,
                           report d (ExternalServiceFlow context (Some plc) True tcpPacket), tcpPacket)
                     else
                       (let (aerr, c) = cache_Add (externalIPCache (contexts d context)) flowHash plc;
                            d1 = updContext d context (\<lambda>k. k\<lparr>externalIPCache := c\<rparr>)
                        in if aerr \<noteq> None
                           then (None, None, Some DropIt,
                                 releaseFlow X d1 context (Some plc) tcpPacket, tcpPacket)
                           else
                             (let d2 = SetState d1 conn TCPData
                              in (Some plc, None, None,
                                  releaseFlow X d2 context (Some plc) tcpPacket, tcpPacket)))))
      else
        (let tcpData = ReadTCPData tcpPacket;
             mid = ManagementID (contexts d context)
         in if length tcpData = 0
            then (None, None, Some SynAckDroppedMissingToken,
                  report d (RejectedFlow tcpPacket None (DefaultEndPoint X) mid context MissingToken None),
                  tcpPacket)
            else
              (let (claims, err, auth') =
                     parsePacketToken X (Auth (conns d conn)) (ReadTCPData tcpPacket);
                   d1 = updConn d conn (\<lambda>k. k\<lparr>Auth := auth'\<rparr>);
                   rid = RemoteContextID (Auth (conns d1 conn))
               in case claims of
                    None \<Rightarrow>
                      (None, None, Some SynAckDroppedBadClaims,
                       report d1 (RejectedFlow tcpPacket None (DefaultEndPoint X) mid context MissingToken None),
                       tcpPacket)
                  | Some cl \<Rightarrow>
                      if err \<noteq> None then
                        (None, None, Some SynAckDroppedBadClaims,
                         report d1 (RejectedFlow tcpPacket None (DefaultEndPoint X) mid context MissingToken None),
                         tcpPacket)
                      else if CheckTCPAuthenticationOption X TCPAuthenticationOptionBaseLen tcpPacket \<noteq> None
                      then (None, None, Some AuthOptionNotFound,
                            report d1 (RejectedFlow tcpPacket (Some conn) mid rid context InvalidFormat None),
                            tcpPacket)
                      else
                        (let (derr, p1) = TCPDataDetach X TCPAuthenticationOptionBaseLen tcpPacket
                         in if derr \<noteq> None
                            then (None, None, Some SynAckDroppedInvalidFormat,
                                  report d1 (RejectedFlow p1 (Some conn) mid rid context InvalidFormat None),
                                  p1)
                            else
                              (let p2 = DropDetachedBytes X p1;
                                   (ri, _) = Search (RejectTxtRules (contexts d1 context)) (T cl)
                               in if mutualAuthorization d1 \<and> ri \<ge> 0
                                  then (None, None, Some RejectRuleOnTransmitter,
                                        report d1 (RejectedFlow p2 (Some conn) mid rid context PolicyDrop None),
                                        p2)
                                  else
                                    (let (ai, action) = Search (AcceptTxtRules (contexts d1 context)) (T cl)
                                     in if \<not> mutualAuthorization d1 \<or> ai \<ge> 0
                                        then
                                          (let d2 = SetState d1 conn TCPSynAckReceived;
                                               d3 = d2\<lparr>netReplyConnectionTracker :=
                                                       cache_AddOrUpdate (netReplyConnectionTracker d2)
                                                         (L4FlowHash X p2) conn\<rparr>
                                           in (action, Some cl, None, d3, p2))
                                        else (None, None, Some DroppingSynAckAtNetwork,
                                              report d1 (RejectedFlow p2 (Some conn) mid rid context PolicyDrop None),
                                              p2)))))))"

definition processNetworkAckPacket ::
  "Externals \<Rightarrow> Datapath \<Rightarrow> nat \<Rightarrow> nat \<Rightarrow> Packet \<Rightarrow> NetResult" where
  "processNetworkAckPacket X d context conn tcpPacket =
     (if GetState d conn = TCPData \<or> GetState d conn = TCPAckSend
      then (None, None, None, d, tcpPacket)
      else
        (let hash = L4FlowHash X tcpPacket;
             mid = ManagementID (contexts d context)
         in if GetState d conn = TCPSynAckSend \<or> GetState d conn = TCPSynReceived then
              (if CheckTCPAuthenticationOption X TCPAuthenticationOptionBaseLen tcpPacket \<noteq> None
               then (None, None, Some AuthOptionNotFound,
                     report d (RejectedFlow tcpPacket (Some conn) (DefaultEndPoint X) mid context InvalidFormat None),
                     tcpPacket)
               else
                 (let (_, err) = parseAckToken X (Auth (conns d conn)) (ReadTCPData tcpPacket)
                  in case err of
                       Some e \<Rightarrow>
                         (None, None, Some (AckDroppedSignature e),
                          report d (RejectedFlow tcpPacket (Some conn) (DefaultEndPoint X) mid context InvalidFormat None),
                          tcpPacket)
                     | None \<Rightarrow>
                         (let (derr, p1) = TCPDataDetach X TCPAuthenticationOptionBaseLen tcpPacket
                          in if derr \<noteq> None
                             then (None, None, Some AckDroppedInvalidFormat,
                                   report d (RejectedFlow p1 (Some conn) (DefaultEndPoint X) mid context InvalidFormat None),
                                   p1)
                             else
                               (let p2 = DropDetachedBytes X p1;
                                    d1 = report d (AcceptedFlow p2 conn (RemoteContextID (Auth (conns d conn)))
                                                     mid context (FlowPolicy (conns d conn)));
                                    d2 = SetState d1 conn TCPData;
                                    d3 = (if \<not> ServiceConnection (conns d2 conn)
                                          then ConntrackTableUpdateMark d2
                                                 (IP_String (SourceAddress p2), IP_String (DestinationAddress p2),
                                                  IPProto p2, SourcePort p2, DestinationPort p2,
                                                  DefaultConnMark X)
                                          else d2)
                                in (None, None, None, d3, p2)))))
            else if ServiceConnection (conns d conn) then (None, None, None, d, tcpPacket)
            else (None, None, Some AckDroppedInvalidState,
                  report d (RejectedFlow tcpPacket (Some conn) (RemoteContextID (Auth (conns d conn)))
                              mid context InvalidState None),
                  tcpPacket)))"

definition processNetworkTCPPacket ::
  "Externals \<Rightarrow> Datapath \<Rightarrow> Packet \<Rightarrow> nat \<Rightarrow> nat option \<Rightarrow> NetResult" where
  "processNetworkTCPPacket X d tcpPacket context conn =
     (case conn of
        None \<Rightarrow> (None, None, None, d, tcpPacket)
      | Some c \<Rightarrow>
          (if TCPFlags tcpPacket AND TCPSynAckMask = TCPSynMask
             then processNetworkSynPacket X d context c tcpPacket
           else if TCPFlags tcpPacket AND TCPSynAckMask = TCPAckMask
             then processNetworkAckPacket X d context c tcpPacket
           else if TCPFlags tcpPacket AND TCPSynAckMask = TCPSynAckMask
             then processNetworkSynAckPacket X d context c tcpPacket
           else (None, None, None, d, tcpPacket)))"

subsection \<open>State resolution\<close>

definition contextFromIP ::
  "Externals \<Rightarrow> Datapath \<Rightarrow> bool \<Rightarrow> string \<Rightarrow> string \<Rightarrow> string \<Rightarrow> error + nat" where
  "contextFromIP X d app packetIP mark port =
     (case cache_Get (puFromIP d) packetIP of
        Some pu \<Rightarrow> Inr pu
      | None \<Rightarrow>
          if mode d = LocalContainer then Inl IPMustBePopulated
          else
            (case cache_Get (puFromIP d) (DefaultNetwork X) of
               Some defaultPU \<Rightarrow> Inr defaultPU
             | None \<Rightarrow>
                 if app then
                   (case cache_Get (puFromMark d) mark of
                      None \<Rightarrow> Inl NoContextForMark
                    | Some pu \<Rightarrow> Inr pu)
                 else
                   (case cache_Get (puFromPort d) port of
                      None \<Rightarrow> Inl NoContextForPort
                    | Some pu \<Rightarrow> Inr pu)))"

definition updateTimer :: "nat Cache \<Rightarrow> string \<Rightarrow> TCPConnection \<Rightarrow> error option \<times> nat Cache" where
  "updateTimer c hash conn =
     (if ServiceConnection conn \<and> TimeOut conn > 0 then cache_SetTimeOut c hash (TimeOut conn)
      else (None, c))"

text \<open>
  A resolver returns the address of the context, the address of the connection (either
  may be \<^verbatim>\<open>nil\<close>), the error and the datapath after the call.
\<close>

type_synonym RetrieveResult = "nat option \<times> nat option \<times> error option \<times> Datapath"

definition appSynRetrieveState :: "Externals \<Rightarrow> Datapath \<Rightarrow> Packet \<Rightarrow> RetrieveResult" where
  "appSynRetrieveState X d p =
     (case contextFromIP X d True (IP_String (SourceAddress p)) (Mark p) (Itoa (uint (SourcePort p))) of
        Inl err \<Rightarrow> (None, None, Some NoContextInAppProcessing, d)
      | Inr context \<Rightarrow>
          (let (conn, d1) = (case cache_GetReset (appOrigConnectionTracker d) (L4FlowHash X p) of
                               None \<Rightarrow> NewTCPConnection X d
                             | Some c \<Rightarrow> (c, d));
               d2 = updConn d1 conn (\<lambda>k. k\<lparr>Context := Some context\<rparr>)
           in (Some context, Some conn, None, d2)))"

definition appRetrieveState :: "Externals \<Rightarrow> Datapath \<Rightarrow> Packet \<Rightarrow> RetrieveResult" where
  "appRetrieveState X d p =
     (let hash = L4FlowHash X p;
          found = (\<lambda>d1 conn. case Context (conns d1 conn) of
                               None \<Rightarrow> (None, None, Some NoContextFound, d1)
                             | Some context \<Rightarrow> (Some context, Some conn, None, d1))
      in case cache_GetReset (appReplyConnectionTracker d) hash of
           None \<Rightarrow>
             (case cache_GetReset (appOrigConnectionTracker d) hash of
                None \<Rightarrow>
                  (let d1 = (if mode d \<noteq> RemoteContainer then
                               (case contextFromIP X d True (IP_String (SourceAddress p)) (Mark p)
                                       (Itoa (uint (SourcePort p))) of
                                  Inr context \<Rightarrow>
                                    d\<lparr>puFromPort := cache_AddOrUpdate (puFromPort d)
                                                       (Itoa (uint (SourcePort p))) context\<rparr>
                                | Inl err \<Rightarrow> d)
                             else d)
                   in (None, None, Some AppStateNotFound, d1))
              | Some conn \<Rightarrow>
                  (let (uerr, c) = updateTimer (appOrigConnectionTracker d) hash (conns d conn);
                       d1 = d\<lparr>appOrigConnectionTracker := c\<rparr>
                   in if uerr \<noteq> None then (None, None, uerr, d1) else found d1 conn))
         | Some conn \<Rightarrow>
             (let (uerr, c) = updateTimer (appReplyConnectionTracker d) hash (conns d conn);
                  d1 = d\<lparr>appReplyConnectionTracker := c\<rparr>
              in if uerr \<noteq> None then (None, None, uerr, d1) else found d1 conn))"

text \<open>
  When no PU is found and the mode is not the remote container, the resolver builds a
  context of type \<open>TransientPU\<close>; it is stored at the next free context address and is
  referenced by nothing else.
\<close>

definition netSynRetrieveState :: "Externals \<Rightarrow> Datapath \<Rightarrow> Packet \<Rightarrow> RetrieveResult" where
  "netSynRetrieveState X d p =
     (case contextFromIP X d False (IP_String (DestinationAddress p)) (Mark p)
             (Itoa (uint (DestinationPort p))) of
        Inl err \<Rightarrow>
          if mode d \<noteq> RemoteContainer then
            (Some (contextCount d), None, None,
             d\<lparr>contexts := (contexts d)(contextCount d := zeroPUContext TransientPU),
               contextCount := contextCount d + 1\<rparr>)
          else (None, None, Some NoContextInNetProcessing, d)
      | Inr context \<Rightarrow>
          (let (conn, d1) = (case cache_GetReset (netOrigConnectionTracker d) (L4FlowHash X p) of
                               None \<Rightarrow> NewTCPConnection X d
                             | Some c \<Rightarrow> (c, d));
               d2 = updConn d1 conn (\<lambda>k. k\<lparr>Context := Some context\<rparr>)
           in (Some context, Some conn, None, d2)))"

definition netSynAckRetrieveState :: "Externals \<Rightarrow> Datapath \<Rightarrow> Packet \<Rightarrow> RetrieveResult" where
  "netSynAckRetrieveState X d p =
     (case cache_GetReset (sourcePortConnectionCache d) (SourcePortHash X PacketTypeNetwork p) of
        None \<Rightarrow> (None, None, Some NoSynackConnection, d)
      | Some conn \<Rightarrow>
          (case Context (conns d conn) of
             None \<Rightarrow> (None, None, Some NoContextFound, d)
           | Some context \<Rightarrow> (Some context, Some conn, None, d)))"

definition netRetrieveState :: "Externals \<Rightarrow> Datapath \<Rightarrow> Packet \<Rightarrow> RetrieveResult" where
  "netRetrieveState X d p =
     (let hash = L4FlowHash X p;
          found = (\<lambda>d1 conn. case Context (conns d1 conn) of
                               None \<Rightarrow> (None, None, Some NoContextFound, d1)
                             | Some context \<Rightarrow> (Some context, Some conn, None, d1))
      in case cache_GetReset (netReplyConnectionTracker d) hash of
           None \<Rightarrow>
             (case cache_GetReset (netOrigConnectionTracker d) hash of
                None \<Rightarrow> (None, None, Some NetStateNotFound, d)
              | Some conn \<Rightarrow>
                  (let (uerr, c) = updateTimer (netOrigConnectionTracker d) hash (conns d conn);
                       d1 = d\<lparr>netOrigConnectionTracker := c\<rparr>
                   in if uerr \<noteq> None then (None, None, uerr, d1) else found d1 conn))
         | Some conn \<Rightarrow>
             (let (uerr, c) = updateTimer (netReplyConnectionTracker d) hash (conns d conn);
                  d1 = d\<lparr>netReplyConnectionTracker := c\<rparr>
              in if uerr \<noteq> None then (None, None, uerr, d1) else found d1 conn))"

subsection \<open>The two entry points\<close>

text \<open>
  An entry point returns its error, the datapath after the call and the packet after the
  call. The part after state resolution is a definition of its own. It starts by locking
  the connection, which fails on a \<^verbatim>\<open>nil\<close> connection. The service hooks are
  taken to only inspect their arguments.
\<close>

type_synonym EntryResult = "error option \<times> Datapath \<times> Packet"

definition networkAfterRetrieve ::
  "Externals \<Rightarrow> Datapath \<Rightarrow> Packet \<Rightarrow> nat option \<Rightarrow> nat option \<Rightarrow> EntryResult" where
  "networkAfterRetrieve X d p context conn =
     (case (context, conn) of
        (Some ctx, Some c) \<Rightarrow>
          if (case service X of
                None \<Rightarrow> False
              | Some s \<Rightarrow> \<not> PreProcessTCPNetPacket s p (contexts d ctx) (conns d c))
          then (Some PreServiceFailedNet, d, p)
          else
            (let (action, claims, err, d1, p1) = processNetworkTCPPacket X d p ctx conn
             in case err of
                  Some e \<Rightarrow> (Some (PacketProcessingFailedNet e), d1, p1)
                | None \<Rightarrow>
                    (case service X of
                       None \<Rightarrow> (None, d1, UpdateTCPChecksum X p1)
                     | Some s \<Rightarrow>
                         if \<not> PostProcessTCPNetPacket s p1 action claims (contexts d1 ctx) (conns d1 c)
                         then (Some PostServiceFailedNet, d1, p1)
                         else
                           (let d2 = (if ServiceConnection (conns d1 c) \<and> TimeOut (conns d1 c) > 0
                                      then d1\<lparr>netReplyConnectionTracker :=
                                                snd (cache_SetTimeOut (netReplyConnectionTracker d1)
                                                       (L4FlowHash X p1) (TimeOut (conns d1 c)))\<rparr>
                                      else d1)
                            in (None, d2, UpdateTCPChecksum X p1))))
      | _ \<Rightarrow> (Some NilDereference, d, p))"

definition processNetworkTCPPackets :: "Externals \<Rightarrow> Datapath \<Rightarrow> Packet \<Rightarrow> EntryResult" where
  "processNetworkTCPPackets X d p =
     (if TCPFlags p AND TCPSynAckMask = TCPSynMask then
        (let (context, conn, err, d1) = netSynRetrieveState X d p
         in if err \<noteq> None then (err, d1, p)
            else
              (case context of
                 None \<Rightarrow> (Some NilDereference, d1, p)
               | Some ctx \<Rightarrow>
                   if PUType (contexts d1 ctx) = TransientPU then (None, d1, p)
                   else networkAfterRetrieve X d1 p context conn))
      else if TCPFlags p AND TCPSynAckMask = TCPSynAckMask then
        (let (context, conn, err, d1) = netSynAckRetrieveState X d p
         in if err \<noteq> None then (None, d1, p)
            else networkAfterRetrieve X d1 p context conn)
      else
        (let (context, conn, err, d1) = netRetrieveState X d p
         in if err \<noteq> None then (err, d1, p)
            else networkAfterRetrieve X d1 p context conn))"

definition applicationAfterRetrieve ::
  "Externals \<Rightarrow> Datapath \<Rightarrow> Packet \<Rightarrow> nat option \<Rightarrow> nat option \<Rightarrow> EntryResult" where
  "applicationAfterRetrieve X d p context conn =
     (case (context, conn) of
        (Some ctx, Some c) \<Rightarrow>
          if (case service X of
                None \<Rightarrow> False
              | Some s \<Rightarrow> \<not> PreProcessTCPAppPacket s p (contexts d ctx) (conns d c))
          then (Some PreServiceFailedApp, d, p)
          else
            (let (action, err, d1, p1) = processApplicationTCPPacket X d p ctx conn
             in case err of
                  Some e \<Rightarrow> (Some (ProcessingFailedApp e), d1, p1)
                | None \<Rightarrow>
                    if (case service X of
                          None \<Rightarrow> False
                        | Some s \<Rightarrow> \<not> PostProcessTCPAppPacket s p1 action (contexts d1 ctx) (conns d1 c))
                    then (Some PostServiceFailedApp, d1, p1)
                    else (None, d1, UpdateTCPChecksum X p1))
      | _ \<Rightarrow> (Some NilDereference, d, p))"

definition processApplicationTCPPackets :: "Externals \<Rightarrow> Datapath \<Rightarrow> Packet \<Rightarrow> EntryResult" where
  "processApplicationTCPPackets X d p =
     (if TCPFlags p AND TCPSynAckMask = TCPSynMask then
        (let (context, conn, err, d1) = appSynRetrieveState X d p
         in if err \<noteq> None then (err, d1, p)
            else applicationAfterRetrieve X d1 p context conn)
      else if TCPFlags p AND TCPSynAckMask = TCPSynAckMask then
        (let (context, conn, err, d1) = appRetrieveState X d p
         in if err \<noteq> None then
              (if Mark p = Itoa (Initialmarkval X - 1) then (None, d1, p) else (err, d1, p))
            else applicationAfterRetrieve X d1 p context conn)
      else
        (let (context, conn, err, d1) = appRetrieveState X d p
         in if err \<noteq> None then (err, d1, p)
            else applicationAfterRetrieve X d1 p context conn))"

text \<open>
  Modelled from the spec: the caller of the entry points (the packet queue handler) is
  not among the sources. The spec has it that any handler error produces a drop and that a
  packet handled without error is forwarded; the dispatcher's own comments say that a
  \<^verbatim>\<open>nil\<close> return sets the verdict to pass.
\<close>

datatype Verdict = Forward | Drop

definition verdict :: "error option \<Rightarrow> Verdict" where
  "verdict err = (case err of None \<Rightarrow> Forward | Some e \<Rightarrow> Drop)"

subsection \<open>Rule matching\<close>

text \<open>A claim set matches a rule set when the selector of some rule holds of it.\<close>

definition matchesRule :: "RuleSet \<Rightarrow> TagStore \<Rightarrow> bool" where
  "matchesRule rs t = list_ex (\<lambda>r. fst r t) rs"

section \<open>Concrete collaborators and inputs\<close>

text \<open>
  A small packet library, token engine and datapath on which the theorems below are
  instantiated. The option check asks for at least the base length of option bytes;
  attach appends the option and sets the payload; detach removes both. An ACK token is
  the local nonce followed by the remote nonce (nonces of one byte here); a SYN or
  SYN-ACK token decodes to the claims of a peer \<open>peer\<close> with tag \<open>app=web\<close> and
  carries the payload as its nonce.
\<close>

definition demoX :: Externals where
  "demoX = \<lparr>
     CheckTCPAuthenticationOption =
       (\<lambda>n p. if length (tcpOptions p) < n then Some (External ''no option'') else None),
     TCPDataAttach = (\<lambda>opt tok p. (None, p\<lparr>tcpOptions := tcpOptions p @ opt, tcpData := tok\<rparr>)),
     TCPDataDetach =
       (\<lambda>n p. (None, p\<lparr>tcpOptions := take (length (tcpOptions p) - n) (tcpOptions p), tcpData := []\<rparr>)),
     DropDetachedBytes = (\<lambda>p. p),
     UpdateTCPChecksum = (\<lambda>p. p),
     L4FlowHash = (\<lambda>p. IP_String (SourceAddress p) @ '':'' @ IP_String (DestinationAddress p)
                        @ '':'' @ Itoa (uint (SourcePort p)) @ '':'' @ Itoa (uint (DestinationPort p))),
     L4ReverseFlowHash = (\<lambda>p. IP_String (DestinationAddress p) @ '':'' @ IP_String (SourceAddress p)
                        @ '':'' @ Itoa (uint (DestinationPort p)) @ '':'' @ Itoa (uint (SourcePort p))),
     SourcePortHash = (\<lambda>t p. case t of PacketTypeApplication \<Rightarrow> Itoa (uint (SourcePort p))
                                  | PacketTypeNetwork \<Rightarrow> Itoa (uint (DestinationPort p))),
     CreateAndSign = (\<lambda>ack cl. if ack then (LCL cl @ RMT cl, [], None) else ([7, 7], [5], None)),
     Decode = (\<lambda>ack data key.
                 if ack then (\<lparr>T = [], LCL = take 1 data, RMT = drop 1 data\<rparr>, [], None, None)
                 else (\<lparr>T = [(''$id'', ''peer''), (''app'', ''web'')], LCL = [], RMT = []\<rparr>,
                       data, Some [0], None)),
     Randomize = (\<lambda>tok. (tok, [4], None)),
     service = None,
     GenerateRandomBytes = (\<lambda>n. (replicate n 0, None)),
     timeNow = (\<lambda>k. 1000),
     TCPAuthenticationOption = 34,
     Initialmarkval = 100,
     DefaultNetwork = ''0.0.0.0/0'',
     DefaultConnMark = 0xEEEE,
     policy_Reject = 2,
     TransmitterLabel = ''$id'',
     PortNumberLabelString = ''@port'',
     DefaultEndPoint = ''default''\<rparr>"

text \<open>The same collaborators with a token engine whose signing fails.\<close>

definition failX :: Externals where
  "failX = demoX\<lparr>CreateAndSign := (\<lambda>ack cl. ([], [], Some (External ''signing failed'')))\<rparr>"

text \<open>The same collaborators with a token engine that cannot re-randomize a token.\<close>

definition noRandomizeX :: Externals where
  "noRandomizeX = demoX\<lparr>Randomize := (\<lambda>tok. (tok, [], Some (External ''token is too small'')))\<rparr>"

definition demoAuth :: AuthInfo where
  "demoAuth = zeroAuthInfo\<lparr>LocalContext := [1], RemoteContext := [2]\<rparr>"

definition demoConn :: "TCPFlowState \<Rightarrow> TCPConnection" where
  "demoConn s = \<lparr>State = s, Auth = demoAuth, Context = Some 0, FlowPolicy = None,
     ServiceConnection = False, TimeOut = 0\<rparr>"

definition webRule :: "FlowPolicy \<Rightarrow> (TagStore \<Rightarrow> bool) \<times> FlowPolicy" where
  "webRule plc = ((\<lambda>t. map_of t ''app'' = Some ''web''), plc)"

definition acceptPolicy :: FlowPolicy where
  "acceptPolicy = \<lparr>Action = 1, PolicyID = ''allow-web''\<rparr>"

definition rejectPolicy :: FlowPolicy where
  "rejectPolicy = \<lparr>Action = 2, PolicyID = ''deny-web''\<rparr>"

text \<open>
  A PU whose receive and transmit rule sets both accept and reject \<open>app=web\<close>, with a
  cached SYN token that expires at time 2000.
\<close>

definition demoContext :: PUContext where
  "demoContext = (zeroPUContext ContainerPU)\<lparr>ManagementID := ''pu1'',
     Identity := [(''$id'', ''pu1'')],
     AcceptRcvRules := [webRule acceptPolicy], RejectRcvRules := [webRule rejectPolicy],
     AcceptTxtRules := [webRule acceptPolicy], RejectTxtRules := [webRule rejectPolicy],
     synToken := [8, 8], synExpiration := 2000\<rparr>"

text \<open>The same PU with its cached SYN token expired.\<close>

definition expiredContext :: PUContext where
  "expiredContext = demoContext\<lparr>synExpiration := 0\<rparr>"

text \<open>The same PU with the peer \<open>10.0.0.2:80\<close> in its external-IP cache.\<close>

definition externalContext :: PUContext where
  "externalContext = demoContext\<lparr>externalIPCache :=
     cache_AddOrUpdate emptyCache ''10.0.0.2:80'' acceptPolicy\<rparr>"

text \<open>
  A datapath in host mode with empty caches and no registered PU; every connection
  address holds a connection in state \<open>s\<close>, every context address the context \<open>c\<close>.
\<close>

definition demoD :: "TCPFlowState \<Rightarrow> PUContext \<Rightarrow> Datapath" where
  "demoD s c = \<lparr>mode = LocalServer, mutualAuthorization = True, ackSize = 2,
     appOrigConnectionTracker = emptyCache, appReplyConnectionTracker = emptyCache,
     netOrigConnectionTracker = emptyCache, netReplyConnectionTracker = emptyCache,
     sourcePortConnectionCache = emptyCache,
     puFromIP = emptyCache, puFromMark = emptyCache, puFromPort = emptyCache,
     conns = (\<lambda>a. demoConn s), connCount = 1,
     contexts = (\<lambda>a. c), contextCount = 1,
     collector = [], conntrackHdl = []\<rparr>"

text \<open>
  A segment from \<open>10.0.0.1:4000\<close> to \<open>10.0.0.2:80\<close> with the given flag byte, option
  bytes and payload.
\<close>

definition demoPacket :: "8 word \<Rightarrow> bytes \<Rightarrow> bytes \<Rightarrow> Packet" where
  "demoPacket flags opts payload = \<lparr>SourceAddress = (10, 0, 0, 1), DestinationAddress = (10, 0, 0, 2),
     SourcePort = 4000, DestinationPort = 80, IPProto = 6, TCPFlags = flags, Mark = ''99'',
     tcpOptions = opts, tcpData = payload\<rparr>"

section \<open>Theorems\<close>

subsection \<open>Evaluation of the concrete inputs\<close>

lemmas demo_defs = demoX_def failX_def demoAuth_def demoConn_def demoContext_def demoD_def
  demoPacket_def zeroAuthInfo_def zeroPUContext_def emptyCache_def webRule_def
  ReadTCPData_def TCPAuthenticationOptionBaseLen_def

lemma digits_eval:
  "digits 10 = ''10''" "digits 0 = ''0''" "digits 1 = ''1''" "digits 2 = ''2''" "digits 80 = ''80''"
  "digits 4000 = ''4000''" "digits 99 = ''99''"
  by (simp_all add: digits.simps digit_def)

lemma ip_eval: "IP_String (10, 0, 0, 2) = ''10.0.0.2''"
  by (simp add: IP_String_def digits_eval)

lemma itoa_eval: "Itoa 80 = ''80''" "Itoa 99 = ''99''" "Itoa 4000 = ''4000''"
  by (simp_all add: Itoa_def digits_eval)

lemma ip_eval_src: "IP_String (10, 0, 0, 1) = ''10.0.0.1''"
  by (simp add: IP_String_def digits.simps digit_def)

subsection \<open>Facts about the helpers\<close>

text \<open>The dotted-decimal string of an address determines the address.\<close>

lemma digit_cases:
  "digit n \<in> set ''0123456789''"
proof -
  have "n mod 10 < length ''0123456789''" by simp
  then show ?thesis unfolding digit_def by (rule nth_mem)
qed

lemma dot_notin_digits: "CHR ''.'' \<notin> set (digits n)"
proof (induction n rule: digits.induct)
  case (1 n)
  have d: "digit n \<noteq> CHR ''.''" using digit_cases [of n] by auto
  show ?case
  proof (cases "n < 10")
    case True
    then show ?thesis using d by (simp add: digits.simps [of n])
  next
    case False
    with 1 d show ?thesis by (simp add: digits.simps [of n])
  qed
qed

lemma digit_val_digit: "digit_val (digit n) = n mod 10"
proof -
  have "n mod 10 < 10" by simp
  then have "n mod 10 = 0 \<or> n mod 10 = 1 \<or> n mod 10 = 2 \<or> n mod 10 = 3 \<or> n mod 10 = 4
     \<or> n mod 10 = 5 \<or> n mod 10 = 6 \<or> n mod 10 = 7 \<or> n mod 10 = 8 \<or> n mod 10 = 9"
    by arith
  then show ?thesis
    by (elim disjE) (simp_all add: digit_def digit_val_def)
qed

lemma number_of_digits: "number_of_digits (digits n) = n"
proof (induction n rule: digits.induct)
  case (1 n)
  show ?case
  proof (cases "n < 10")
    case True
    then show ?thesis by (simp add: digits.simps [of n] number_of_digits_def digit_val_digit)
  next
    case False
    with 1 have "number_of_digits (digits (n div 10)) = n div 10" by simp
    with False show ?thesis
      by (simp add: digits.simps [of n] number_of_digits_def digit_val_digit)
  qed
qed

lemma digits_inj: "digits m = digits n \<Longrightarrow> m = n"
  by (metis number_of_digits)

lemma split_at_dot:
  assumes "c \<notin> set a" "c \<notin> set b" "a @ c # r = b @ c # s"
  shows "a = b \<and> r = s"
  using assms
proof (induction a arbitrary: b)
  case Nil
  then show ?case by (cases b) auto
next
  case (Cons x a)
  then show ?case by (cases b) auto
qed

lemma IP_String_inj: "IP_String a = IP_String b \<Longrightarrow> a = b"
proof -
  assume e: "IP_String a = IP_String b"
  obtain a1 a2 a3 a4 where a: "a = (a1, a2, a3, a4)" by (cases a)
  obtain b1 b2 b3 b4 where b: "b = (b1, b2, b3, b4)" by (cases b)
  from e have e1: "digits (unat a1) @ CHR ''.'' # (digits (unat a2) @ CHR ''.'' # (digits (unat a3) @ CHR ''.'' # digits (unat a4)))
       = digits (unat b1) @ CHR ''.'' # (digits (unat b2) @ CHR ''.'' # (digits (unat b3) @ CHR ''.'' # digits (unat b4)))"
    by (simp add: IP_String_def a b)
  from split_at_dot [OF dot_notin_digits dot_notin_digits e1]
  have p1: "digits (unat a1) = digits (unat b1)"
    and e2: "digits (unat a2) @ CHR ''.'' # (digits (unat a3) @ CHR ''.'' # digits (unat a4))
       = digits (unat b2) @ CHR ''.'' # (digits (unat b3) @ CHR ''.'' # digits (unat b4))"
    by simp_all
  from split_at_dot [OF dot_notin_digits dot_notin_digits e2]
  have p2: "digits (unat a2) = digits (unat b2)"
    and e3: "digits (unat a3) @ CHR ''.'' # digits (unat a4) = digits (unat b3) @ CHR ''.'' # digits (unat b4)"
    by simp_all
  from split_at_dot [OF dot_notin_digits dot_notin_digits e3]
  have p3: "digits (unat a3) = digits (unat b3)" and p4: "digits (unat a4) = digits (unat b4)"
    by simp_all
  from p1 p2 p3 p4 show "a = b"
    by (simp add: a b word_unat_eq_iff digits_inj)
qed

lemma IP_String_eq_iff: "(IP_String a = IP_String b) = (a = b)"
proof
  assume "IP_String a = IP_String b"
  then show "a = b" by (rule IP_String_inj)
next
  assume "a = b"
  then show "IP_String a = IP_String b" by simp
qed

lemma createTCPAuthenticationOption_empty:
  "createTCPAuthenticationOption X [] = [TCPAuthenticationOption X, 4, 0, 0]"
  by (simp add: createTCPAuthenticationOption_def TCPAuthenticationOptionBaseLen_def)

lemma cache_Get_Remove: "cache_Get (snd (cache_Remove c k)) k = None"
  by (auto simp: cache_Get_def cache_Remove_def)

lemma GetState_SetState: "GetState (SetState d c s) c = s"
  by (simp add: GetState_def SetState_def updConn_def)

lemma GetState_Conntrack: "GetState (ConntrackTableUpdateMark d c) = GetState d"
  by (simp add: GetState_def ConntrackTableUpdateMark_def fun_eq_iff)

lemma sourcePort_SetState: "sourcePortConnectionCache (SetState d c s) = sourcePortConnectionCache d"
  by (simp add: SetState_def updConn_def)

lemma Auth_SetState: "Auth (conns (SetState d c s) c') = Auth (conns d c')"
  by (simp add: SetState_def updConn_def)

lemma SearchFrom_nonneg:
  "0 \<le> i \<Longrightarrow> (0 \<le> fst (SearchFrom i rs t)) = list_ex (\<lambda>r. fst r t) rs"
proof (induction rs arbitrary: i)
  case Nil
  then show ?case by simp
next
  case (Cons r rs)
  obtain sel plc where r: "r = (sel, plc)" by (cases r)
  from Cons.prems have "0 \<le> i + 1" by simp
  from Cons.IH [OF this] Cons.prems show ?case by (simp add: r)
qed

lemma Search_nonneg_iff: "(0 \<le> fst (Search rs t)) = matchesRule rs t"
  by (simp add: Search_def matchesRule_def SearchFrom_nonneg)


lemma parsePacketToken_cases:
  "parsePacketToken X auth data =
     (case Decode X False data (RemotePublicKey auth) of
        (claims, nonce, cert, err) \<Rightarrow>
          if err \<noteq> None then (None, err, auth)
          else if \<not> snd (TagStore_Get (T claims) (TransmitterLabel X))
               then (None, Some NoTransmitterLabel, auth)
               else (Some claims, None,
                     auth\<lparr>RemotePublicKey := cert, RemoteContext := nonce,
                          RemoteContextID := fst (TagStore_Get (T claims) (TransmitterLabel X))\<rparr>))"
  by (simp add: parsePacketToken_def Let_def case_prod_unfold)

lemma parsePacketToken_Some:
  assumes "parsePacketToken X auth data = (Some cl, None, auth')"
  shows "snd (TagStore_Get (T cl) (TransmitterLabel X))"
proof -
  obtain claims nonce cert err where d: "Decode X False data (RemotePublicKey auth) = (claims, nonce, cert, err)"
    by (metis prod_cases4)
  from assms show ?thesis
    by (simp add: parsePacketToken_cases d split: if_splits)
qed

subsection \<open>Network ACK: the nonce check\<close>

text \<open>
  Claim C1. An ACK from the network that finds the connection in state \<open>SynAckSend\<close> or
  \<open>SynReceived\<close> is accepted (no error) only if the remote nonce of its token equals
  the connection's local context and the local nonce of its token equals the
  connection's remote context. If either differs, the handler returns an error, the only
  effect on the datapath is one rejected-flow report with reason \<open>InvalidFormat\<close>, the
  packet is as it arrived, and the connection state is what it was (so it is not
  \<open>Data\<close>). The token is what the engine decodes from the payload.
\<close>

theorem ack_nonce_check:
  assumes "GetState d conn = TCPSynAckSend \<or> GetState d conn = TCPSynReceived"
    and "processNetworkAckPacket X d context conn p = (action, claims, err, d', p')"
    and "Decode X True (ReadTCPData p) (RemotePublicKey (Auth (conns d conn))) = (cl, nonce, cert, derr)"
  shows "(err = None \<longrightarrow>
            RMT cl = LocalContext (Auth (conns d conn)) \<and> LCL cl = RemoteContext (Auth (conns d conn)))
       \<and> (RMT cl \<noteq> LocalContext (Auth (conns d conn)) \<or> LCL cl \<noteq> RemoteContext (Auth (conns d conn)) \<longrightarrow>
            err \<noteq> None
          \<and> d' = report d (RejectedFlow p (Some conn) (DefaultEndPoint X)
                             (ManagementID (contexts d context)) context InvalidFormat None)
          \<and> p' = p
          \<and> GetState d' conn = GetState d conn \<and> GetState d' conn \<noteq> TCPData)"
  using assms
  by (auto simp: processNetworkAckPacket_def parseAckToken_def Let_def GetState_def report_def
           split: if_splits option.splits prod.splits)


theorem ack_nonce_check_witness:
  "GetState (demoD TCPSynReceived demoContext) 0 = TCPSynReceived
   \<and> fst (snd (snd (processNetworkAckPacket demoX (demoD TCPSynReceived demoContext) 0 0
                       (demoPacket 0x10 [34, 4, 0, 0] [2, 9])))) \<noteq> None
   \<and> GetState (fst (snd (snd (snd (processNetworkAckPacket demoX (demoD TCPSynReceived demoContext) 0 0
                       (demoPacket 0x10 [34, 4, 0, 0] [2, 9])))))) 0 = TCPSynReceived
   \<and> fst (snd (snd (processNetworkAckPacket demoX (demoD TCPSynReceived demoContext) 0 0
                       (demoPacket 0x10 [34, 4, 0, 0] [2, 1])))) = None
   \<and> RMT (fst (Decode demoX True [2, 1] None)) = LocalContext demoAuth
   \<and> LCL (fst (Decode demoX True [2, 1] None)) = RemoteContext demoAuth"
proof -
  let ?d = "demoD TCPSynReceived demoContext"
  let ?bad = "demoPacket 0x10 [34, 4, 0, 0] [2, 9]"
  let ?good = "demoPacket 0x10 [34, 4, 0, 0] [2, 1]"
  have st: "GetState ?d 0 = TCPSynAckSend \<or> GetState ?d 0 = TCPSynReceived"
    by (simp add: GetState_def demo_defs)
  obtain a c e d' p' where bad: "processNetworkAckPacket demoX ?d 0 0 ?bad = (a, c, e, d', p')"
    by (metis prod_cases5)
  have decb: "Decode demoX True (ReadTCPData ?bad) (RemotePublicKey (Auth (conns ?d 0)))
                = (\<lparr>T = [], LCL = [2], RMT = [9]\<rparr>, [], None, None)"
    by (simp add: demo_defs)
  have b: "e \<noteq> None \<and> GetState d' 0 = TCPSynReceived"
    using ack_nonce_check [OF st bad decb] by (simp add: GetState_def report_def demo_defs)
  obtain a2 c2 e2 d2 p2 where good: "processNetworkAckPacket demoX ?d 0 0 ?good = (a2, c2, e2, d2, p2)"
    by (metis prod_cases5)
  have decg: "Decode demoX True (ReadTCPData ?good) (RemotePublicKey (Auth (conns ?d 0)))
                = (\<lparr>T = [], LCL = [2], RMT = [1]\<rparr>, [], None, None)"
    by (simp add: demo_defs)
  have e2: "e2 = None"
    using good by (simp add: processNetworkAckPacket_def parseAckToken_def Let_def GetState_def demo_defs)
  have g: "RMT (fst (Decode demoX True [2, 1] None)) = LocalContext demoAuth
         \<and> LCL (fst (Decode demoX True [2, 1] None)) = RemoteContext demoAuth"
    using ack_nonce_check [OF st good decg] e2 by (simp add: demo_defs)
  show ?thesis using st b g bad good e2 by (simp add: GetState_def demo_defs)
qed

subsection \<open>Application SYN and SYN-ACK: failure of token creation\<close>

lemma createSynPacketToken_no_error: "fst (snd (createSynPacketToken X ctx auth)) = None"
  by (simp add: createSynPacketToken_def Let_def case_prod_unfold)

lemma createSynAckPacketToken_no_error: "fst (snd (createSynAckPacketToken X ctx auth)) = None"
  by (simp add: createSynAckPacketToken_def Let_def case_prod_unfold)

lemma failing_syn_eval:
  "processApplicationSynPacket failX (demoD TCPSynSend expiredContext) (demoPacket 0x02 [] []) 0 0
   = (None, None,
      fst (snd (snd (processApplicationSynPacket failX (demoD TCPSynSend expiredContext)
                       (demoPacket 0x02 [] []) 0 0))),
      demoPacket 0x02 [34, 4, 0, 0] [])"
  by (simp add: processApplicationSynPacket_def createSynPacketToken_def createTCPAuthenticationOption_def
        cache_Get_def Let_def case_prod_unfold expiredContext_def demo_defs)

lemma failing_syn_state:
  "cache_Get (appOrigConnectionTracker
      (fst (snd (snd (processApplicationSynPacket failX (demoD TCPSynSend expiredContext)
                       (demoPacket 0x02 [] []) 0 0)))))
     (L4FlowHash failX (demoPacket 0x02 [] [])) = Some 0"
  by (simp add: processApplicationSynPacket_def createSynPacketToken_def createTCPAuthenticationOption_def
        cache_Get_def cache_AddOrUpdate_def SetState_def updConn_def updContext_def
        Let_def case_prod_unfold expiredContext_def demo_defs)

lemma failing_synack_eval:
  "processApplicationSynAckPacket failX (demoD TCPSynReceived demoContext) (demoPacket 0x12 [] []) 0 0
   = (None, None,
      fst (snd (snd (processApplicationSynAckPacket failX (demoD TCPSynReceived demoContext)
                       (demoPacket 0x12 [] []) 0 0))),
      demoPacket 0x12 [34, 4, 0, 0] [])"
  by (simp add: processApplicationSynAckPacket_def createSynAckPacketToken_def
        createTCPAuthenticationOption_def GetState_def SetState_def updConn_def updContext_def
        Let_def case_prod_unfold demo_defs)

lemma failing_synack_state:
  "GetState (fst (snd (snd (processApplicationSynAckPacket failX (demoD TCPSynReceived demoContext)
                       (demoPacket 0x12 [] []) 0 0)))) 0 = TCPSynAckSend"
  by (simp add: processApplicationSynAckPacket_def createSynAckPacketToken_def
        createTCPAuthenticationOption_def GetState_def SetState_def updConn_def updContext_def
        Let_def case_prod_unfold demo_defs)

text \<open>
  Claim C2 asks that a failure of the token engine while a SYN or SYN-ACK token is
  created is returned by the handler, so that the packet is dropped and the connection
  state is left as it was. The code does not do that. Neither wrapper ever returns an
  error, whatever the engine does. With an engine whose \<open>CreateAndSign\<close> fails, a PU
  whose cached token has expired and an application SYN without option or payload, the
  SYN handler returns no error, the packet leaves with the four option bytes and an empty
  token attached, and the connection is in the application origin cache. With the same
  engine, a connection in state \<open>SynReceived\<close> and an application SYN-ACK, the SYN-ACK
  handler returns no error, attaches the empty token as well, and the connection state
  has become \<open>SynAckSend\<close>.
\<close>

theorem token_creation_error_is_swallowed:
  "fst (snd (createSynPacketToken X ctx auth)) = None
   \<and> fst (snd (createSynAckPacketToken X ctx auth)) = None
   \<and> snd (snd (CreateAndSign failX False cl)) = Some (External ''signing failed'')
   \<and> processApplicationSynPacket failX (demoD TCPSynSend expiredContext) (demoPacket 0x02 [] []) 0 0
       = (None, None,
          fst (snd (snd (processApplicationSynPacket failX (demoD TCPSynSend expiredContext)
                           (demoPacket 0x02 [] []) 0 0))),
          demoPacket 0x02 [34, 4, 0, 0] [])
   \<and> cache_Get (appOrigConnectionTracker
          (fst (snd (snd (processApplicationSynPacket failX (demoD TCPSynSend expiredContext)
                           (demoPacket 0x02 [] []) 0 0)))))
         (L4FlowHash failX (demoPacket 0x02 [] [])) = Some 0
   \<and> processApplicationSynAckPacket failX (demoD TCPSynReceived demoContext) (demoPacket 0x12 [] []) 0 0
       = (None, None,
          fst (snd (snd (processApplicationSynAckPacket failX (demoD TCPSynReceived demoContext)
                           (demoPacket 0x12 [] []) 0 0))),
          demoPacket 0x12 [34, 4, 0, 0] [])
   \<and> GetState (fst (snd (snd (processApplicationSynAckPacket failX (demoD TCPSynReceived demoContext)
                           (demoPacket 0x12 [] []) 0 0)))) 0 = TCPSynAckSend"
proof -
  have s: "snd (snd (CreateAndSign failX False cl)) = Some (External ''signing failed'')"
    by (simp add: failX_def)
  show ?thesis
    using createSynPacketToken_no_error [of X ctx auth] createSynAckPacketToken_no_error [of X ctx auth]
      s failing_syn_eval failing_syn_state failing_synack_eval failing_synack_state
    by (intro conjI)
qed

subsection \<open>Network SYN-ACK without a source-port entry\<close>

text \<open>
  Claim C3, as amended. A SYN-ACK from the network whose source-port hash has no entry in
  the source-port cache makes the entry point return no error, with the datapath (so
  the collector: no report) and the packet unchanged. The packet is let through
  untouched; it is not dropped.
\<close>

theorem synack_without_state_passes:
  assumes "TCPFlags p AND TCPSynAckMask = TCPSynAckMask"
    and "cache_GetReset (sourcePortConnectionCache d) (SourcePortHash X PacketTypeNetwork p) = None"
  shows "processNetworkTCPPackets X d p = (None, d, p)"
  using assms
  by (simp add: processNetworkTCPPackets_def netSynAckRetrieveState_def TCPSynAckMask_def TCPSynMask_def)

theorem synack_without_state_passes_witness:
  "TCPFlags (demoPacket 0x12 [] []) AND TCPSynAckMask = TCPSynAckMask
   \<and> cache_GetReset (sourcePortConnectionCache (demoD TCPSynSend demoContext))
        (SourcePortHash demoX PacketTypeNetwork (demoPacket 0x12 [] [])) = None
   \<and> processNetworkTCPPackets demoX (demoD TCPSynSend demoContext) (demoPacket 0x12 [] [])
       = (None, demoD TCPSynSend demoContext, demoPacket 0x12 [] [])"
proof -
  have f: "TCPFlags (demoPacket 0x12 [] []) AND TCPSynAckMask = TCPSynAckMask"
    by (simp add: demoPacket_def TCPSynAckMask_def)
  have m: "cache_GetReset (sourcePortConnectionCache (demoD TCPSynSend demoContext))
             (SourcePortHash demoX PacketTypeNetwork (demoPacket 0x12 [] [])) = None"
    by (simp add: cache_GetReset_def demoD_def emptyCache_def)
  from synack_without_state_passes [OF f m] f m show ?thesis by simp
qed

text \<open>
  The claim as stated says that the packet is not forwarded. For a SYN-ACK that carries
  the authentication option and a token, and a datapath with an empty source-port cache,
  the entry point returns \<^verbatim>\<open>nil\<close>, for which the verdict is to forward.
\<close>

theorem synack_without_state_counterexample:
  "cache_GetReset (sourcePortConnectionCache (demoD TCPSynSend demoContext))
        (SourcePortHash demoX PacketTypeNetwork (demoPacket 0x12 [34, 4, 0, 0] [7, 7])) = None
   \<and> fst (processNetworkTCPPackets demoX (demoD TCPSynSend demoContext)
             (demoPacket 0x12 [34, 4, 0, 0] [7, 7])) = None
   \<and> verdict (fst (processNetworkTCPPackets demoX (demoD TCPSynSend demoContext)
                      (demoPacket 0x12 [34, 4, 0, 0] [7, 7]))) = Forward"
  by (simp add: processNetworkTCPPackets_def netSynAckRetrieveState_def TCPSynAckMask_def
        TCPSynMask_def cache_GetReset_def demoD_def emptyCache_def demoPacket_def verdict_def)

subsection \<open>Reject rules before accept rules\<close>

lemma net_syn_reject:
  assumes opt: "CheckTCPAuthenticationOption X TCPAuthenticationOptionBaseLen p = None"
    and parse: "parsePacketToken X (Auth (conns d conn)) (ReadTCPData p) = (Some cl, None, auth')"
    and detach: "TCPDataDetach X TCPAuthenticationOptionBaseLen p = (None, p1)"
    and rej: "matchesRule (RejectRcvRules (contexts d context))
                (AppendKeyValue (T cl) (PortNumberLabelString X)
                   (Itoa (uint (DestinationPort (DropDetachedBytes X p1)))))"
  shows "processNetworkSynPacket X d context conn p =
           (None, None, Some RejectedByPolicy,
            report (updConn d conn (\<lambda>k. k\<lparr>Auth := auth'\<rparr>))
              (RejectedFlow (DropDetachedBytes X p1) (Some conn)
                 (fst (TagStore_Get (T cl) (TransmitterLabel X)))
                 (ManagementID (contexts d context)) context PolicyDrop
                 (snd (Search (RejectRcvRules (contexts d context))
                         (AppendKeyValue (T cl) (PortNumberLabelString X)
                            (Itoa (uint (DestinationPort (DropDetachedBytes X p1)))))))),
            DropDetachedBytes X p1)"
proof -
  have ok: "snd (TagStore_Get (T cl) (TransmitterLabel X))" by (rule parsePacketToken_Some [OF parse])
  have ctx: "contexts (updConn d conn f) = contexts d" for f by (simp add: updConn_def)
  from rej have ri: "0 \<le> fst (Search (RejectRcvRules (contexts d context))
                (AppendKeyValue (T cl) (PortNumberLabelString X)
                   (Itoa (uint (DestinationPort (DropDetachedBytes X p1))))))"
    by (simp add: Search_nonneg_iff)
  show ?thesis
    using ok ri
    by (simp add: processNetworkSynPacket_def opt parse detach ctx Let_def case_prod_unfold)
qed

lemma net_synack_reject:
  assumes opt: "CheckTCPAuthenticationOption X TCPAuthenticationOptionBaseLen p = None"
    and data: "ReadTCPData p \<noteq> []"
    and parse: "parsePacketToken X (Auth (conns d conn)) (ReadTCPData p) = (Some cl, None, auth')"
    and detach: "TCPDataDetach X TCPAuthenticationOptionBaseLen p = (None, p1)"
    and mutual: "mutualAuthorization d"
    and rej: "matchesRule (RejectTxtRules (contexts d context)) (T cl)"
  shows "processNetworkSynAckPacket X d context conn p =
           (None, None, Some RejectRuleOnTransmitter,
            report (updConn d conn (\<lambda>k. k\<lparr>Auth := auth'\<rparr>))
              (RejectedFlow (DropDetachedBytes X p1) (Some conn)
                 (ManagementID (contexts d context)) (RemoteContextID auth') context PolicyDrop None),
            DropDetachedBytes X p1)"
proof -
  have ctx: "contexts (updConn d conn f) = contexts d" for f by (simp add: updConn_def)
  have mu: "mutualAuthorization (updConn d conn f) = mutualAuthorization d" for f by (simp add: updConn_def)
  have au: "Auth (conns (updConn d conn (\<lambda>k. k\<lparr>Auth := auth'\<rparr>)) conn) = auth'"
    by (simp add: updConn_def)
  from rej have ri: "0 \<le> fst (Search (RejectTxtRules (contexts d context)) (T cl))"
    by (simp add: Search_nonneg_iff)
  show ?thesis
    using ri mutual data
    by (simp add: processNetworkSynAckPacket_def opt parse detach ctx mu au Let_def case_prod_unfold)
qed

text \<open>
  Claim C4. In both policy evaluations over token claims the reject rule set is consulted
  first and decides before the accept rule set is looked at. For an inbound SYN whose
  option is present, whose token parses and whose option and token detach: if the
  claims (with the \<open>@port\<close> label appended) match a rule of \<open>RejectRcvRules\<close>, then,
  whatever \<open>AcceptRcvRules\<close> holds, the handler returns the policy error, emits one
  rejected-flow report with reason \<open>PolicyDrop\<close> and the matching reject policy, and
  leaves the network origin cache, the application reply cache and the connection state
  as they were. For an inbound SYN-ACK in the same situation, with a non-empty payload
  and mutual authorization switched on, a match in \<open>RejectTxtRules\<close> likewise gives an
  error and a \<open>PolicyDrop\<close> report, whatever \<open>AcceptTxtRules\<close> holds, and the network
  reply cache and the connection state are as they were.
\<close>

theorem reject_rules_first:
  assumes opt: "CheckTCPAuthenticationOption X TCPAuthenticationOptionBaseLen p = None"
    and parse: "parsePacketToken X (Auth (conns d conn)) (ReadTCPData p) = (Some cl, None, auth')"
    and detach: "TCPDataDetach X TCPAuthenticationOptionBaseLen p = (None, p1)"
  shows "(matchesRule (RejectRcvRules (contexts d context))
            (AppendKeyValue (T cl) (PortNumberLabelString X)
               (Itoa (uint (DestinationPort (DropDetachedBytes X p1))))) \<longrightarrow>
          (\<forall>action claims err d' p'.
             processNetworkSynPacket X d context conn p = (action, claims, err, d', p') \<longrightarrow>
               action = None \<and> claims = None \<and> err = Some RejectedByPolicy
             \<and> collector d' = collector d @
                  [RejectedFlow p' (Some conn) (fst (TagStore_Get (T cl) (TransmitterLabel X)))
                     (ManagementID (contexts d context)) context PolicyDrop
                     (snd (Search (RejectRcvRules (contexts d context))
                             (AppendKeyValue (T cl) (PortNumberLabelString X)
                                (Itoa (uint (DestinationPort (DropDetachedBytes X p1)))))))]
             \<and> netOrigConnectionTracker d' = netOrigConnectionTracker d
             \<and> appReplyConnectionTracker d' = appReplyConnectionTracker d
             \<and> GetState d' conn = GetState d conn))
       \<and> (ReadTCPData p \<noteq> [] \<and> mutualAuthorization d
            \<and> matchesRule (RejectTxtRules (contexts d context)) (T cl) \<longrightarrow>
          (\<forall>action claims err d' p'.
             processNetworkSynAckPacket X d context conn p = (action, claims, err, d', p') \<longrightarrow>
               action = None \<and> claims = None \<and> err = Some RejectRuleOnTransmitter
             \<and> collector d' = collector d @
                  [RejectedFlow p' (Some conn) (ManagementID (contexts d context))
                     (RemoteContextID auth') context PolicyDrop None]
             \<and> netReplyConnectionTracker d' = netReplyConnectionTracker d
             \<and> GetState d' conn = GetState d conn))"
proof (intro conjI impI allI)
  fix action claims err d' p'
  assume rej: "matchesRule (RejectRcvRules (contexts d context))
            (AppendKeyValue (T cl) (PortNumberLabelString X)
               (Itoa (uint (DestinationPort (DropDetachedBytes X p1)))))"
    and r: "processNetworkSynPacket X d context conn p = (action, claims, err, d', p')"
  note e = net_syn_reject [OF opt parse detach rej, unfolded r]
  from e show "action = None" "claims = None" "err = Some RejectedByPolicy" by simp_all
  from e show "collector d' = collector d @
                  [RejectedFlow p' (Some conn) (fst (TagStore_Get (T cl) (TransmitterLabel X)))
                     (ManagementID (contexts d context)) context PolicyDrop
                     (snd (Search (RejectRcvRules (contexts d context))
                             (AppendKeyValue (T cl) (PortNumberLabelString X)
                                (Itoa (uint (DestinationPort (DropDetachedBytes X p1)))))))]"
    by (simp add: report_def updConn_def)
  from e show "netOrigConnectionTracker d' = netOrigConnectionTracker d"
    "appReplyConnectionTracker d' = appReplyConnectionTracker d"
    "GetState d' conn = GetState d conn"
    by (simp_all add: report_def updConn_def GetState_def)
next
  fix action claims err d' p'
  assume h: "ReadTCPData p \<noteq> [] \<and> mutualAuthorization d
            \<and> matchesRule (RejectTxtRules (contexts d context)) (T cl)"
    and r: "processNetworkSynAckPacket X d context conn p = (action, claims, err, d', p')"
  from h have h1: "ReadTCPData p \<noteq> []" and h2: "mutualAuthorization d"
    and h3: "matchesRule (RejectTxtRules (contexts d context)) (T cl)" by simp_all
  note e = net_synack_reject [OF opt h1 parse detach h2 h3, unfolded r]
  from e show "action = None" "claims = None" "err = Some RejectRuleOnTransmitter" by simp_all
  from e show "collector d' = collector d @
                  [RejectedFlow p' (Some conn) (ManagementID (contexts d context))
                     (RemoteContextID auth') context PolicyDrop None]"
    by (simp add: report_def updConn_def)
  from e show "netReplyConnectionTracker d' = netReplyConnectionTracker d"
    "GetState d' conn = GetState d conn"
    by (simp_all add: report_def updConn_def GetState_def)
qed

theorem reject_rules_first_witness:
  "matchesRule (RejectRcvRules demoContext) [(''$id'', ''peer''), (''app'', ''web''), (''@port'', ''80'')]
   \<and> matchesRule (AcceptRcvRules demoContext) [(''$id'', ''peer''), (''app'', ''web''), (''@port'', ''80'')]
   \<and> fst (snd (snd (processNetworkSynPacket demoX (demoD TCPSynSend demoContext) 0 0
                       (demoPacket 0x02 [34, 4, 0, 0] [9])))) = Some RejectedByPolicy
   \<and> netOrigConnectionTracker
        (fst (snd (snd (snd (processNetworkSynPacket demoX (demoD TCPSynSend demoContext) 0 0
                               (demoPacket 0x02 [34, 4, 0, 0] [9]))))))
       = netOrigConnectionTracker (demoD TCPSynSend demoContext)
   \<and> matchesRule (RejectTxtRules demoContext) [(''$id'', ''peer''), (''app'', ''web'')]
   \<and> matchesRule (AcceptTxtRules demoContext) [(''$id'', ''peer''), (''app'', ''web'')]
   \<and> fst (snd (snd (processNetworkSynAckPacket demoX (demoD TCPSynSend demoContext) 0 0
                       (demoPacket 0x12 [34, 4, 0, 0] [9])))) = Some RejectRuleOnTransmitter"
proof -
  let ?d = "demoD TCPSynSend demoContext"
  let ?p = "demoPacket 0x02 [34, 4, 0, 0] [9]"
  let ?q = "demoPacket 0x12 [34, 4, 0, 0] [9]"
  let ?cl = "\<lparr>T = [(''$id'', ''peer''), (''app'', ''web'')], LCL = [], RMT = []\<rparr>"
  let ?auth = "demoAuth\<lparr>RemotePublicKey := Some [0], RemoteContext := [9], RemoteContextID := ''peer''\<rparr>"
  have m: "matchesRule (RejectRcvRules demoContext) [(''$id'', ''peer''), (''app'', ''web''), (''@port'', ''80'')]"
      "matchesRule (AcceptRcvRules demoContext) [(''$id'', ''peer''), (''app'', ''web''), (''@port'', ''80'')]"
      "matchesRule (RejectTxtRules demoContext) [(''$id'', ''peer''), (''app'', ''web'')]"
      "matchesRule (AcceptTxtRules demoContext) [(''$id'', ''peer''), (''app'', ''web'')]"
    by (simp_all add: matchesRule_def demoContext_def webRule_def zeroPUContext_def)
  have optp: "CheckTCPAuthenticationOption demoX TCPAuthenticationOptionBaseLen ?p = None"
    and optq: "CheckTCPAuthenticationOption demoX TCPAuthenticationOptionBaseLen ?q = None"
    by (simp_all add: demo_defs)
  have parsep: "parsePacketToken demoX (Auth (conns ?d 0)) (ReadTCPData ?p) = (Some ?cl, None, ?auth)"
    and parseq: "parsePacketToken demoX (Auth (conns ?d 0)) (ReadTCPData ?q) = (Some ?cl, None, ?auth)"
    by (simp_all add: parsePacketToken_cases TagStore_Get_def demo_defs)
  have detp: "TCPDataDetach demoX TCPAuthenticationOptionBaseLen ?p = (None, demoPacket 0x02 [] [])"
    and detq: "TCPDataDetach demoX TCPAuthenticationOptionBaseLen ?q = (None, demoPacket 0x12 [] [])"
    by (simp_all add: demo_defs)
  have rej: "matchesRule (RejectRcvRules (contexts ?d 0))
               (AppendKeyValue (T ?cl) (PortNumberLabelString demoX)
                  (Itoa (uint (DestinationPort (DropDetachedBytes demoX (demoPacket 0x02 [] []))))))"
    using m(1) by (simp add: AppendKeyValue_def demoX_def demoD_def demoPacket_def itoa_eval)
  obtain a c e d' p' where r: "processNetworkSynPacket demoX ?d 0 0 ?p = (a, c, e, d', p')"
    by (metis prod_cases5)
  note syn = reject_rules_first [OF optp parsep detp, of 0, THEN conjunct1, THEN mp, OF rej, rule_format, OF r]
  have hq: "ReadTCPData ?q \<noteq> [] \<and> mutualAuthorization ?d
            \<and> matchesRule (RejectTxtRules (contexts ?d 0)) (T ?cl)"
    using m(3) by (simp add: demo_defs)
  obtain a2 c2 e2 d2 p2 where r2: "processNetworkSynAckPacket demoX ?d 0 0 ?q = (a2, c2, e2, d2, p2)"
    by (metis prod_cases5)
  note synack = reject_rules_first [OF optq parseq detq, of 0, THEN conjunct2, THEN mp, OF hq, rule_format, OF r2]
  from syn synack m r r2 show ?thesis by simp
qed

subsection \<open>Network SYN for an unknown PU\<close>

text \<open>
  Claim C5 says that an inbound SYN for which no PU context is found, in a mode other
  than the remote container, is passed with its authentication option and token payload
  stripped. The code passes it as it arrived. When the flag bits are those of a SYN, the
  context lookup fails and the mode is not the remote container, the entry point returns
  no error and the very packet it was given; the datapath differs only by the transient
  context that the resolver built, so no connection is created and no cache changes.
\<close>

theorem transient_syn_passes_unstripped:
  assumes "TCPFlags p AND TCPSynAckMask = TCPSynMask"
    and "contextFromIP X d False (IP_String (DestinationAddress p)) (Mark p)
           (Itoa (uint (DestinationPort p))) = Inl e"
    and "mode d \<noteq> RemoteContainer"
  shows "processNetworkTCPPackets X d p =
           (None,
            d\<lparr>contexts := (contexts d)(contextCount d := zeroPUContext TransientPU),
              contextCount := contextCount d + 1\<rparr>,
            p)"
  using assms
  by (simp add: processNetworkTCPPackets_def netSynRetrieveState_def zeroPUContext_def)

theorem transient_syn_passes_unstripped_witness:
  "TCPFlags (demoPacket 0x02 [34, 4, 0, 0] [7, 7]) AND TCPSynAckMask = TCPSynMask
   \<and> mode (demoD TCPSynSend demoContext) = LocalServer
   \<and> verdict (fst (processNetworkTCPPackets demoX (demoD TCPSynSend demoContext)
                      (demoPacket 0x02 [34, 4, 0, 0] [7, 7]))) = Forward
   \<and> tcpOptions (snd (snd (processNetworkTCPPackets demoX (demoD TCPSynSend demoContext)
                              (demoPacket 0x02 [34, 4, 0, 0] [7, 7])))) = [34, 4, 0, 0]
   \<and> tcpData (snd (snd (processNetworkTCPPackets demoX (demoD TCPSynSend demoContext)
                           (demoPacket 0x02 [34, 4, 0, 0] [7, 7])))) = [7, 7]"
proof -
  let ?d = "demoD TCPSynSend demoContext"
  let ?p = "demoPacket 0x02 [34, 4, 0, 0] [7, 7]"
  have f: "TCPFlags ?p AND TCPSynAckMask = TCPSynMask"
    by (simp add: demoPacket_def TCPSynAckMask_def TCPSynMask_def)
  have c: "contextFromIP demoX ?d False (IP_String (DestinationAddress ?p)) (Mark ?p)
             (Itoa (uint (DestinationPort ?p))) = Inl NoContextForPort"
    by (simp add: contextFromIP_def cache_Get_def demoD_def emptyCache_def)
  have m: "mode ?d \<noteq> RemoteContainer" by (simp add: demoD_def)
  from transient_syn_passes_unstripped [OF f c m] f show ?thesis
    by (simp add: verdict_def demoD_def demoPacket_def)
qed

subsection \<open>Application ACK\<close>

lemma app_ack_Data:
  "GetState d conn = TCPData \<Longrightarrow> processApplicationAckPacket X d p context conn = (None, None, d, p)"
  by (simp add: processApplicationAckPacket_def)

lemma app_ack_build:
  assumes st: "GetState d conn = TCPSynAckReceived \<or> GetState d conn = TCPSynSend"
    and cs: "CreateAndSign X True \<lparr>T = [], LCL = LocalContext (Auth (conns d conn)),
                                   RMT = RemoteContext (Auth (conns d conn))\<rparr> = (token, nonce, cerr)"
    and at: "TCPDataAttach X [TCPAuthenticationOption X, 4, 0, 0] token p = (aerr, attached)"
  shows "processApplicationAckPacket X d p context conn =
     (if cerr \<noteq> None then (None, cerr, d, p)
      else if int (length token) \<noteq> uint (ackSize d) then (None, Some (ProtocolError (length token)), d, p)
      else if aerr \<noteq> None then (None, aerr, d, attached)
      else (None, None,
            (if \<not> ServiceConnection (conns d conn)
                \<and> IP_String (SourceAddress attached) \<noteq> IP_String (DestinationAddress attached)
             then ConntrackTableUpdateMark (SetState d conn TCPAckSend)
                    (IP_String (SourceAddress attached), IP_String (DestinationAddress attached),
                     IPProto attached, SourcePort attached, DestinationPort attached, DefaultConnMark X)
             else SetState d conn TCPAckSend),
            attached))"
proof -
  have nd: "GetState d conn \<noteq> TCPData" using st by auto
  have sv: "ServiceConnection (conns (SetState d conn TCPAckSend) conn) = ServiceConnection (conns d conn)"
    by (simp add: SetState_def updConn_def)
  show ?thesis
    using st nd
    by (simp add: processApplicationAckPacket_def createAckPacketToken_def cs at sv
          createTCPAuthenticationOption_empty)
qed

lemma app_ack_AckSend:
  "GetState d conn = TCPAckSend \<Longrightarrow>
   processApplicationAckPacket X d p context conn =
     (None, None,
      SetState (d\<lparr>sourcePortConnectionCache :=
                    snd (cache_Remove (sourcePortConnectionCache d)
                           (SourcePortHash X PacketTypeApplication p))\<rparr>) conn TCPData,
      p)"
  by (simp add: processApplicationAckPacket_def Let_def split: prod.splits)

lemma app_ack_wrong:
  "GetState d conn = TCPSynReceived \<or> GetState d conn = TCPSynAckSend \<Longrightarrow>
   processApplicationAckPacket X d p context conn = (None, Some ReceivedAppAckInWrongState, d, p)"
  by (auto simp: processApplicationAckPacket_def)

text \<open>
  Claim C6. The application ACK handler, by the state of the connection. In state
  \<open>Data\<close> it passes the packet and changes nothing. In state \<open>SynAckReceived\<close> or
  \<open>SynSend\<close> it has the engine sign an ACK token over the claims that hold the local
  and the remote nonce; an error of the engine is returned; a token whose length is not
  \<open>ackSize\<close> gives a protocol error with nothing changed; an error of the attach is
  returned with the datapath unchanged; otherwise the packet is the one with the four
  option bytes and the token attached, the state is \<open>AckSend\<close>, and conntrack is
  called exactly when the connection is not a service connection and the source address
  differs from the destination address. In state \<open>AckSend\<close> it removes the
  source-port entry, sets the state to \<open>Data\<close> and passes the packet unchanged. In the
  two remaining states, \<open>SynReceived\<close> and \<open>SynAckSend\<close>, it returns an error and
  changes nothing.
\<close>

theorem app_ack_handler:
  assumes r: "processApplicationAckPacket X d p context conn = (action, err, d', p')"
  shows "(GetState d conn = TCPData \<longrightarrow> err = None \<and> d' = d \<and> p' = p)
    \<and> (GetState d conn = TCPSynAckReceived \<or> GetState d conn = TCPSynSend \<longrightarrow>
         (\<forall>token nonce cerr aerr attached.
            CreateAndSign X True \<lparr>T = [], LCL = LocalContext (Auth (conns d conn)),
                                   RMT = RemoteContext (Auth (conns d conn))\<rparr> = (token, nonce, cerr)
            \<and> TCPDataAttach X [TCPAuthenticationOption X, 4, 0, 0] token p = (aerr, attached) \<longrightarrow>
              (cerr \<noteq> None \<longrightarrow> err = cerr \<and> d' = d \<and> p' = p)
            \<and> (cerr = None \<and> int (length token) \<noteq> uint (ackSize d) \<longrightarrow>
                  err = Some (ProtocolError (length token)) \<and> d' = d \<and> p' = p)
            \<and> (cerr = None \<and> int (length token) = uint (ackSize d) \<and> aerr \<noteq> None \<longrightarrow>
                  err = aerr \<and> d' = d)
            \<and> (cerr = None \<and> int (length token) = uint (ackSize d) \<and> aerr = None \<longrightarrow>
                  err = None \<and> p' = attached \<and> GetState d' conn = TCPAckSend
                \<and> d' = (if \<not> ServiceConnection (conns d conn)
                            \<and> SourceAddress attached \<noteq> DestinationAddress attached
                         then ConntrackTableUpdateMark (SetState d conn TCPAckSend)
                                (IP_String (SourceAddress attached), IP_String (DestinationAddress attached),
                                 IPProto attached, SourcePort attached, DestinationPort attached,
                                 DefaultConnMark X)
                         else SetState d conn TCPAckSend))))
    \<and> (GetState d conn = TCPAckSend \<longrightarrow>
          err = None \<and> p' = p \<and> GetState d' conn = TCPData
        \<and> cache_Get (sourcePortConnectionCache d') (SourcePortHash X PacketTypeApplication p) = None
        \<and> d' = SetState (d\<lparr>sourcePortConnectionCache :=
                              snd (cache_Remove (sourcePortConnectionCache d)
                                     (SourcePortHash X PacketTypeApplication p))\<rparr>) conn TCPData)
    \<and> (GetState d conn = TCPSynReceived \<or> GetState d conn = TCPSynAckSend \<longrightarrow>
          err = Some ReceivedAppAckInWrongState \<and> d' = d \<and> p' = p)"
proof (intro conjI impI allI)
  assume "GetState d conn = TCPData"
  from app_ack_Data [OF this, of X p "context"] r show "err = None" "d' = d" "p' = p" by simp_all
next
  assume "GetState d conn = TCPSynReceived \<or> GetState d conn = TCPSynAckSend"
  from app_ack_wrong [OF this, of X p "context"] r
  show "err = Some ReceivedAppAckInWrongState" "d' = d" "p' = p" by simp_all
next
  assume "GetState d conn = TCPAckSend"
  from app_ack_AckSend [OF this, of X p "context"] r
  have e: "err = None" "p' = p"
    and d: "d' = SetState (d\<lparr>sourcePortConnectionCache :=
                              snd (cache_Remove (sourcePortConnectionCache d)
                                     (SourcePortHash X PacketTypeApplication p))\<rparr>) conn TCPData"
    by simp_all
  show "err = None" "p' = p" by (rule e)+
  show "d' = SetState (d\<lparr>sourcePortConnectionCache :=
                              snd (cache_Remove (sourcePortConnectionCache d)
                                     (SourcePortHash X PacketTypeApplication p))\<rparr>) conn TCPData"
    by (rule d)
  show "GetState d' conn = TCPData" by (simp add: d GetState_SetState)
  show "cache_Get (sourcePortConnectionCache d') (SourcePortHash X PacketTypeApplication p) = None"
    by (simp add: d sourcePort_SetState cache_Get_Remove)
next
  fix token nonce cerr aerr attached
  assume st: "GetState d conn = TCPSynAckReceived \<or> GetState d conn = TCPSynSend"
    and h: "CreateAndSign X True \<lparr>T = [], LCL = LocalContext (Auth (conns d conn)),
                                   RMT = RemoteContext (Auth (conns d conn))\<rparr> = (token, nonce, cerr)
            \<and> TCPDataAttach X [TCPAuthenticationOption X, 4, 0, 0] token p = (aerr, attached)"
  from h have h1: "CreateAndSign X True \<lparr>T = [], LCL = LocalContext (Auth (conns d conn)),
                                   RMT = RemoteContext (Auth (conns d conn))\<rparr> = (token, nonce, cerr)"
    and h2: "TCPDataAttach X [TCPAuthenticationOption X, 4, 0, 0] token p = (aerr, attached)"
    by simp_all
  note b = app_ack_build [OF st h1 h2, of "context", unfolded r]
  { assume "cerr \<noteq> None"
    with b show "err = cerr" "d' = d" "p' = p" by simp_all }
  { assume "cerr = None \<and> int (length token) \<noteq> uint (ackSize d)"
    with b show "err = Some (ProtocolError (length token))" "d' = d" "p' = p" by simp_all }
  { assume "cerr = None \<and> int (length token) = uint (ackSize d) \<and> aerr \<noteq> None"
    with b show "err = aerr" "d' = d" by simp_all }
  { assume a: "cerr = None \<and> int (length token) = uint (ackSize d) \<and> aerr = None"
    with b show "err = None" "p' = attached" by simp_all
    from a b show dd: "d' = (if \<not> ServiceConnection (conns d conn)
                            \<and> SourceAddress attached \<noteq> DestinationAddress attached
                         then ConntrackTableUpdateMark (SetState d conn TCPAckSend)
                                (IP_String (SourceAddress attached), IP_String (DestinationAddress attached),
                                 IPProto attached, SourcePort attached, DestinationPort attached,
                                 DefaultConnMark X)
                         else SetState d conn TCPAckSend)" by (simp add: IP_String_eq_iff)
    show "GetState d' conn = TCPAckSend"
      by (simp add: dd GetState_SetState GetState_Conntrack) }
qed

theorem app_ack_handler_witness:
  "fst (snd (processApplicationAckPacket demoX (demoD TCPSynSend demoContext) (demoPacket 0x10 [] []) 0 0)) = None
   \<and> snd (snd (snd (processApplicationAckPacket demoX (demoD TCPSynSend demoContext)
                       (demoPacket 0x10 [] []) 0 0))) = demoPacket 0x10 [34, 4, 0, 0] [1, 2]
   \<and> GetState (fst (snd (snd (processApplicationAckPacket demoX (demoD TCPSynSend demoContext)
                                 (demoPacket 0x10 [] []) 0 0)))) 0 = TCPAckSend
   \<and> conntrackHdl (fst (snd (snd (processApplicationAckPacket demoX (demoD TCPSynSend demoContext)
                                     (demoPacket 0x10 [] []) 0 0))))
       = [(''10.0.0.1'', ''10.0.0.2'', 6, 4000, 80, 0xEEEE)]
   \<and> GetState (fst (snd (snd (processApplicationAckPacket demoX (demoD TCPAckSend demoContext)
                                 (demoPacket 0x10 [] []) 0 0)))) 0 = TCPData
   \<and> fst (snd (processApplicationAckPacket demoX (demoD TCPSynReceived demoContext)
                  (demoPacket 0x10 [] []) 0 0)) = Some ReceivedAppAckInWrongState
   \<and> fst (snd (processApplicationAckPacket demoX (demoD TCPData demoContext)
                  (demoPacket 0x10 [] []) 0 0)) = None"
proof -
  let ?p = "demoPacket 0x10 [] []"
  let ?d1 = "demoD TCPSynSend demoContext"
  obtain a1 e1 d1' p1' where r1: "processApplicationAckPacket demoX ?d1 ?p 0 0 = (a1, e1, d1', p1')"
    by (metis prod_cases4)
  have st1: "GetState ?d1 0 = TCPSynAckReceived \<or> GetState ?d1 0 = TCPSynSend"
    by (simp add: GetState_def demo_defs)
  have cs: "CreateAndSign demoX True \<lparr>T = [], LCL = LocalContext (Auth (conns ?d1 0)),
              RMT = RemoteContext (Auth (conns ?d1 0))\<rparr> = ([1, 2], [], None)
          \<and> TCPDataAttach demoX [TCPAuthenticationOption demoX, 4, 0, 0] [1, 2] ?p
              = (None, demoPacket 0x10 [34, 4, 0, 0] [1, 2])"
    by (simp add: demo_defs)
  note b = app_ack_handler [OF r1, THEN conjunct2, THEN conjunct1, THEN mp, OF st1, rule_format, OF cs]
  have pr: "(None :: error option) = None \<and> int (length [1 :: 8 word, 2]) = uint (ackSize ?d1)
            \<and> (None :: error option) = None"
    by (simp add: demoD_def)
  note f = b [THEN conjunct2, THEN conjunct2, THEN conjunct2, THEN mp, OF pr]
  have s1: "e1 = None" "p1' = demoPacket 0x10 [34, 4, 0, 0] [1, 2]" "GetState d1' 0 = TCPAckSend"
    using f by blast+
  have "d1' = (if \<not> ServiceConnection (conns ?d1 0) \<and>
                  SourceAddress (demoPacket 0x10 [34, 4, 0, 0] [1, 2]) \<noteq>
                  DestinationAddress (demoPacket 0x10 [34, 4, 0, 0] [1, 2])
               then ConntrackTableUpdateMark (SetState ?d1 0 TCPAckSend)
                      (IP_String (SourceAddress (demoPacket 0x10 [34, 4, 0, 0] [1, 2])),
                       IP_String (DestinationAddress (demoPacket 0x10 [34, 4, 0, 0] [1, 2])),
                       IPProto (demoPacket 0x10 [34, 4, 0, 0] [1, 2]),
                       SourcePort (demoPacket 0x10 [34, 4, 0, 0] [1, 2]),
                       DestinationPort (demoPacket 0x10 [34, 4, 0, 0] [1, 2]), DefaultConnMark demoX)
               else SetState ?d1 0 TCPAckSend)"
    using f by blast
  then have "d1' = ConntrackTableUpdateMark (SetState ?d1 0 TCPAckSend)
                     (''10.0.0.1'', ''10.0.0.2'', 6, 4000, 80, 0xEEEE)"
    by (simp add: demo_defs ip_eval ip_eval_src)
  then have ct: "conntrackHdl d1' = [(''10.0.0.1'', ''10.0.0.2'', 6, 4000, 80, 0xEEEE)]"
    by (simp add: ConntrackTableUpdateMark_def SetState_def updConn_def demoD_def)
  let ?d2 = "demoD TCPAckSend demoContext"
  obtain a2 e2 d2' p2' where r2: "processApplicationAckPacket demoX ?d2 ?p 0 0 = (a2, e2, d2', p2')"
    by (metis prod_cases4)
  have st2: "GetState ?d2 0 = TCPAckSend" by (simp add: GetState_def demo_defs)
  from app_ack_handler [OF r2, THEN conjunct2, THEN conjunct2, THEN conjunct1, THEN mp, OF st2]
  have s2: "GetState d2' 0 = TCPData" by blast
  let ?d3 = "demoD TCPSynReceived demoContext"
  obtain a3 e3 d3' p3' where r3: "processApplicationAckPacket demoX ?d3 ?p 0 0 = (a3, e3, d3', p3')"
    by (metis prod_cases4)
  have st3: "GetState ?d3 0 = TCPSynReceived \<or> GetState ?d3 0 = TCPSynAckSend"
    by (simp add: GetState_def demo_defs)
  from app_ack_handler [OF r3, THEN conjunct2, THEN conjunct2, THEN conjunct2, THEN mp, OF st3]
  have s3: "e3 = Some ReceivedAppAckInWrongState" by blast
  let ?d4 = "demoD TCPData demoContext"
  obtain a4 e4 d4' p4' where r4: "processApplicationAckPacket demoX ?d4 ?p 0 0 = (a4, e4, d4', p4')"
    by (metis prod_cases4)
  have st4: "GetState ?d4 0 = TCPData" by (simp add: GetState_def demo_defs)
  from app_ack_handler [OF r4, THEN conjunct1, THEN mp, OF st4]
  have s4: "e4 = None" by blast
  from s1 ct s2 s3 s4 r1 r2 r3 r4 show ?thesis by simp
qed

subsection \<open>Application SYN to a cached external destination\<close>

text \<open>
  Claim C7. When the string \<open>ip:port\<close> of the destination of an application SYN is in
  the external-IP cache of the PU, the handler returns the cached policy and no error,
  the packet is unchanged, the connection is in the application origin cache under the
  flow hash and in the source-port cache under the source-port hash, and nothing else
  of the datapath changes: the connections (no nonce is written) and the PU contexts (no
  token is cached) are what they were.
\<close>

theorem app_syn_external_destination:
  assumes "cache_Get (externalIPCache (contexts d context))
             (IP_String (DestinationAddress p) @ '':'' @ Itoa (uint (DestinationPort p))) = Some policy"
    and "processApplicationSynPacket X d p context conn = (action, err, d', p')"
  shows "action = Some policy \<and> err = None \<and> p' = p
       \<and> cache_Get (appOrigConnectionTracker d') (L4FlowHash X p) = Some conn
       \<and> cache_Get (sourcePortConnectionCache d') (SourcePortHash X PacketTypeApplication p) = Some conn
       \<and> conns d' = conns d \<and> contexts d' = contexts d
       \<and> d' = d\<lparr>appOrigConnectionTracker := appOrigConnectionTracker d',
                sourcePortConnectionCache := sourcePortConnectionCache d'\<rparr>"
  using assms
  by (auto simp: processApplicationSynPacket_def Let_def cache_Get_def cache_AddOrUpdate_def)

theorem app_syn_external_destination_witness:
  "cache_Get (externalIPCache externalContext) ''10.0.0.2:80'' = Some acceptPolicy
   \<and> processApplicationSynPacket demoX (demoD TCPSynSend externalContext) (demoPacket 0x02 [] []) 0 0
       = (Some acceptPolicy, None,
          fst (snd (snd (processApplicationSynPacket demoX (demoD TCPSynSend externalContext)
                           (demoPacket 0x02 [] []) 0 0))),
          demoPacket 0x02 [] [])"
proof -
  let ?d = "demoD TCPSynSend externalContext"
  let ?p = "demoPacket 0x02 [] []"
  have k: "IP_String (DestinationAddress ?p) @ '':'' @ Itoa (uint (DestinationPort ?p)) = ''10.0.0.2:80''"
    by (simp add: demoPacket_def ip_eval itoa_eval)
  have h: "cache_Get (externalIPCache (contexts ?d 0))
             (IP_String (DestinationAddress ?p) @ '':'' @ Itoa (uint (DestinationPort ?p))) = Some acceptPolicy"
    unfolding k by (simp add: cache_Get_def cache_AddOrUpdate_def externalContext_def demoD_def)
  obtain a e d' p' where r: "processApplicationSynPacket demoX ?d ?p 0 0 = (a, e, d', p')"
    by (metis prod_cases4)
  from app_syn_external_destination [OF h r] have "a = Some acceptPolicy \<and> e = None \<and> p' = ?p"
    by simp
  moreover have "cache_Get (externalIPCache externalContext) ''10.0.0.2:80'' = Some acceptPolicy"
    by (simp add: cache_Get_def cache_AddOrUpdate_def externalContext_def)
  ultimately show ?thesis using r by simp
qed

subsection \<open>Who writes the two nonces\<close>

lemma app_ack_Auth:
  "Auth (conns (fst (snd (snd (processApplicationAckPacket X d p context conn)))) conn) = Auth (conns d conn)"
  by (simp add: processApplicationAckPacket_def Let_def case_prod_unfold Auth_SetState
        ConntrackTableUpdateMark_def)

lemma net_ack_Auth:
  "Auth (conns (fst (snd (snd (snd (processNetworkAckPacket X d context conn p))))) conn) = Auth (conns d conn)"
  by (simp add: processNetworkAckPacket_def Let_def case_prod_unfold Auth_SetState
        ConntrackTableUpdateMark_def report_def split: option.splits)

text \<open>
  Claim C8, as amended. The local context is set when the connection is created, to the
  random bytes drawn then. Every creation of a SYN token sets it again, to the nonce of
  the re-randomized cached token when that token is reused and to the nonce of the new
  token otherwise, and every creation of a SYN-ACK token sets it to the nonce of that
  token; none of these touches the remote context. Parsing a SYN or SYN-ACK token never
  touches the local context, and sets the remote context to the nonce of the token on
  every parse that succeeds; a parse that fails leaves it alone. The two ACK handlers
  leave the whole authentication information of the connection as it was.
\<close>

theorem nonce_assignment:
  "LocalContext (Auth (conns (snd (NewTCPConnection X d)) (fst (NewTCPConnection X d))))
     = fst (GenerateRandomBytes X 32)
   \<and> LocalContext (initAuthInfo X s) = fst (GenerateRandomBytes X 32)
   \<and> RemoteContext (initAuthInfo X s) = RemoteContext s
   \<and> LocalContext (snd (snd (snd (createSynPacketToken X ctx auth)))) =
        (if timeNow X 0 < synExpiration ctx \<and> synToken ctx \<noteq> []
            \<and> snd (snd (Randomize X (synToken ctx))) = None
         then fst (snd (Randomize X (synToken ctx)))
         else fst (snd (CreateAndSign X False \<lparr>T = Identity ctx, LCL = [], RMT = []\<rparr>)))
   \<and> RemoteContext (snd (snd (snd (createSynPacketToken X ctx auth)))) = RemoteContext auth
   \<and> LocalContext (snd (snd (snd (createSynAckPacketToken X ctx auth)))) =
        fst (snd (CreateAndSign X False \<lparr>T = Identity ctx, LCL = [], RMT = RemoteContext auth\<rparr>))
   \<and> RemoteContext (snd (snd (snd (createSynAckPacketToken X ctx auth)))) = RemoteContext auth
   \<and> LocalContext (snd (snd (parsePacketToken X auth data))) = LocalContext auth
   \<and> RemoteContext (snd (snd (parsePacketToken X auth data))) =
        (if fst (snd (parsePacketToken X auth data)) = None
         then fst (snd (Decode X False data (RemotePublicKey auth)))
         else RemoteContext auth)
   \<and> Auth (conns (fst (snd (snd (processApplicationAckPacket X d p context conn)))) conn)
        = Auth (conns d conn)
   \<and> Auth (conns (fst (snd (snd (snd (processNetworkAckPacket X d context conn p))))) conn)
        = Auth (conns d conn)"
proof (intro conjI)
  show "LocalContext (Auth (conns (snd (NewTCPConnection X d)) (fst (NewTCPConnection X d))))
     = fst (GenerateRandomBytes X 32)"
    by (simp add: NewTCPConnection_def initAuthInfo_def Let_def case_prod_unfold)
  show "LocalContext (initAuthInfo X s) = fst (GenerateRandomBytes X 32)"
    "RemoteContext (initAuthInfo X s) = RemoteContext s"
    by (simp_all add: initAuthInfo_def case_prod_unfold)
  show "LocalContext (snd (snd (snd (createSynPacketToken X ctx auth)))) =
        (if timeNow X 0 < synExpiration ctx \<and> synToken ctx \<noteq> []
            \<and> snd (snd (Randomize X (synToken ctx))) = None
         then fst (snd (Randomize X (synToken ctx)))
         else fst (snd (CreateAndSign X False \<lparr>T = Identity ctx, LCL = [], RMT = []\<rparr>)))"
    by (simp add: createSynPacketToken_def Let_def case_prod_unfold)
  show "RemoteContext (snd (snd (snd (createSynPacketToken X ctx auth)))) = RemoteContext auth"
    by (simp add: createSynPacketToken_def Let_def case_prod_unfold)
  show "LocalContext (snd (snd (snd (createSynAckPacketToken X ctx auth)))) =
        fst (snd (CreateAndSign X False \<lparr>T = Identity ctx, LCL = [], RMT = RemoteContext auth\<rparr>))"
    "RemoteContext (snd (snd (snd (createSynAckPacketToken X ctx auth)))) = RemoteContext auth"
    by (simp_all add: createSynAckPacketToken_def Let_def case_prod_unfold)
  show "LocalContext (snd (snd (parsePacketToken X auth data))) = LocalContext auth"
    "RemoteContext (snd (snd (parsePacketToken X auth data))) =
        (if fst (snd (parsePacketToken X auth data)) = None
         then fst (snd (Decode X False data (RemotePublicKey auth)))
         else RemoteContext auth)"
    by (auto simp: parsePacketToken_cases case_prod_unfold)
  show "Auth (conns (fst (snd (snd (processApplicationAckPacket X d p context conn)))) conn)
        = Auth (conns d conn)"
    by (rule app_ack_Auth)
  show "Auth (conns (fst (snd (snd (snd (processNetworkAckPacket X d context conn p))))) conn)
        = Auth (conns d conn)"
    by (rule net_ack_Auth)
qed

text \<open>
  The claim as stated has both nonces written once and never again. A connection created
  with the concrete collaborators has 32 zero bytes as its local context; creating a
  SYN-ACK token for it replaces them by the nonce of the token. A first token parsed for
  a connection sets its remote context to \<open>[9]\<close>, and a second token parsed for the
  same connection replaces it by \<open>[3]\<close>.
\<close>

theorem nonce_assignment_counterexample:
  "LocalContext (initAuthInfo demoX zeroAuthInfo) = replicate 32 0
   \<and> LocalContext (snd (snd (snd (createSynAckPacketToken demoX demoContext
                                     (initAuthInfo demoX zeroAuthInfo))))) = [5]
   \<and> RemoteContext (snd (snd (parsePacketToken demoX zeroAuthInfo [9]))) = [9]
   \<and> RemoteContext (snd (snd (parsePacketToken demoX
                                 (snd (snd (parsePacketToken demoX zeroAuthInfo [9]))) [3]))) = [3]"
  by (simp add: initAuthInfo_def createSynAckPacketToken_def parsePacketToken_cases TagStore_Get_def
        case_prod_unfold Let_def demoX_def demoContext_def zeroAuthInfo_def zeroPUContext_def)

subsection \<open>The cached SYN token\<close>

text \<open>
  The wrapper on each of its paths, in terms of what the engine's \<open>Randomize\<close> returns
  for the cached token and what its \<open>CreateAndSign\<close> returns for the identity of the
  PU.
\<close>

lemma createSynPacketToken_eq:
  assumes rz: "Randomize X (synToken ctx) = (rtok, rnonce, rerr)"
    and cs: "CreateAndSign X False \<lparr>T = Identity ctx, LCL = [], RMT = []\<rparr> = (ctok, cnonce, cerr)"
  shows "createSynPacketToken X ctx auth =
     (if timeNow X 0 < synExpiration ctx \<and> synToken ctx \<noteq> [] \<and> rerr = None
      then (rtok, None, ctx\<lparr>synToken := rtok\<rparr>, auth\<lparr>LocalContext := rnonce\<rparr>)
      else if cerr = None
      then (ctok, None, ctx\<lparr>synToken := ctok, synExpiration := timeNow X 1 + Millisecond * 500\<rparr>,
            auth\<lparr>LocalContext := cnonce\<rparr>)
      else ([], None, ctx\<lparr>synToken := ctok\<rparr>, auth\<lparr>LocalContext := cnonce\<rparr>))"
  by (cases "timeNow X 0 < synExpiration ctx"; cases "synToken ctx = []")
     (simp_all add: createSynPacketToken_def rz cs Let_def)

text \<open>
  The SYN-ACK wrapper writes its token into the same cache field and leaves the
  expiration as it is.
\<close>

lemma createSynAckPacketToken_cache:
  "synExpiration (fst (snd (snd (createSynAckPacketToken X ctx auth)))) = synExpiration ctx
   \<and> synToken (fst (snd (snd (createSynAckPacketToken X ctx auth))))
       = fst (CreateAndSign X False \<lparr>T = Identity ctx, LCL = [], RMT = RemoteContext auth\<rparr>)"
  by (simp add: createSynAckPacketToken_def Let_def case_prod_unfold)

text \<open>
  Claim C9. The wrapper never returns an error, and what it returns is fixed on every
  path. The cached token is sent again exactly when its expiration is after the current
  time, the cached bytes are not empty and the engine re-randomizes it: then the token
  returned is the re-randomized one, it stays cached with its expiration unchanged, and
  the new nonce is the local context. On every other path (the expiration is not after
  the current time, or the cached bytes are empty, or the engine fails to re-randomize)
  the cached token is not sent: the local context is the nonce that the engine's signing
  returns, and either the engine signs, and the fresh token is returned and cached with
  the expiration set to the clock's next reading plus 500 milliseconds, or the engine
  fails to sign, and the token returned is empty, the cache holds what the engine handed
  back, and the expiration is not moved.
\<close>

theorem syn_token_cache:
  assumes r: "createSynPacketToken X ctx auth = (token, err, ctx', auth')"
    and rz: "Randomize X (synToken ctx) = (rtok, rnonce, rerr)"
    and cs: "CreateAndSign X False \<lparr>T = Identity ctx, LCL = [], RMT = []\<rparr> = (ctok, cnonce, cerr)"
  shows "err = None
       \<and> (timeNow X 0 < synExpiration ctx \<and> synToken ctx \<noteq> [] \<and> rerr = None \<longrightarrow>
            token = rtok \<and> ctx' = ctx\<lparr>synToken := rtok\<rparr> \<and> auth' = auth\<lparr>LocalContext := rnonce\<rparr>)
       \<and> (synExpiration ctx \<le> timeNow X 0 \<or> synToken ctx = [] \<or> rerr \<noteq> None \<longrightarrow>
            auth' = auth\<lparr>LocalContext := cnonce\<rparr>
          \<and> (cerr = None \<longrightarrow>
                token = ctok
              \<and> ctx' = ctx\<lparr>synToken := ctok, synExpiration := timeNow X 1 + Millisecond * 500\<rparr>)
          \<and> (cerr \<noteq> None \<longrightarrow>
                token = [] \<and> ctx' = ctx\<lparr>synToken := ctok\<rparr> \<and> synExpiration ctx' = synExpiration ctx))"
proof -
  note e = createSynPacketToken_eq [OF rz cs, of auth, unfolded r]
  show ?thesis
  proof (intro conjI impI)
    from e show "err = None" by (simp split: if_splits)
  next
    assume "timeNow X 0 < synExpiration ctx \<and> synToken ctx \<noteq> [] \<and> rerr = None"
    with e show "token = rtok" "ctx' = ctx\<lparr>synToken := rtok\<rparr>" "auth' = auth\<lparr>LocalContext := rnonce\<rparr>"
      by simp_all
  next
    assume n: "synExpiration ctx \<le> timeNow X 0 \<or> synToken ctx = [] \<or> rerr \<noteq> None"
    then have n': "\<not> (timeNow X 0 < synExpiration ctx \<and> synToken ctx \<noteq> [] \<and> rerr = None)" by auto
    from e n' show "auth' = auth\<lparr>LocalContext := cnonce\<rparr>" by (simp split: if_splits)
    { assume "cerr = None"
      with e n' show "token = ctok"
        "ctx' = ctx\<lparr>synToken := ctok, synExpiration := timeNow X 1 + Millisecond * 500\<rparr>"
        by simp_all }
    { assume "cerr \<noteq> None"
      with e n' show "token = []" and c: "ctx' = ctx\<lparr>synToken := ctok\<rparr>" by simp_all
      show "synExpiration ctx' = synExpiration ctx" by (simp add: c) }
  qed
qed

theorem syn_token_cache_witness:
  "fst (createSynPacketToken demoX demoContext demoAuth) = [8, 8]
   \<and> LocalContext (snd (snd (snd (createSynPacketToken demoX demoContext demoAuth)))) = [4]
   \<and> synExpiration (fst (snd (snd (createSynPacketToken demoX demoContext demoAuth)))) = 2000
   \<and> fst (createSynPacketToken demoX expiredContext demoAuth) = [7, 7]
   \<and> LocalContext (snd (snd (snd (createSynPacketToken demoX expiredContext demoAuth)))) = [5]
   \<and> synExpiration (fst (snd (snd (createSynPacketToken demoX expiredContext demoAuth)))) = 500001000
   \<and> fst (createSynPacketToken noRandomizeX demoContext demoAuth) = [7, 7]
   \<and> LocalContext (snd (snd (snd (createSynPacketToken noRandomizeX demoContext demoAuth)))) = [5]
   \<and> synExpiration (fst (snd (snd (createSynPacketToken noRandomizeX demoContext demoAuth)))) = 500001000
   \<and> fst (createSynPacketToken failX expiredContext demoAuth) = []
   \<and> synToken (fst (snd (snd (createSynPacketToken failX expiredContext demoAuth)))) = []
   \<and> synExpiration (fst (snd (snd (createSynPacketToken failX expiredContext demoAuth)))) = 0"
proof -
  have cs: "CreateAndSign demoX False \<lparr>T = Identity c, LCL = [], RMT = []\<rparr> = ([7, 7], [5], None)"
    "CreateAndSign noRandomizeX False \<lparr>T = Identity c, LCL = [], RMT = []\<rparr> = ([7, 7], [5], None)"
    "CreateAndSign failX False \<lparr>T = Identity c, LCL = [], RMT = []\<rparr>
       = ([], [], Some (External ''signing failed''))" for c :: PUContext
    by (simp_all add: demoX_def noRandomizeX_def failX_def)
  have rz: "Randomize demoX (synToken c) = (synToken c, [4], None)"
    "Randomize failX (synToken c) = (synToken c, [4], None)"
    "Randomize noRandomizeX (synToken c) = (synToken c, [], Some (External ''token is too small''))"
    for c :: PUContext
    by (simp_all add: demoX_def noRandomizeX_def failX_def)
  obtain t1 e1 c1 a1 where r1: "createSynPacketToken demoX demoContext demoAuth = (t1, e1, c1, a1)"
    by (metis prod_cases4)
  have live: "timeNow demoX 0 < synExpiration demoContext \<and> synToken demoContext \<noteq> []
              \<and> (None :: error option) = None"
    by (simp add: demoX_def demoContext_def)
  note reuse = syn_token_cache [OF r1 rz(1) cs(1), THEN conjunct2, THEN conjunct1, THEN mp, OF live]
  obtain t2 e2 c2 a2 where r2: "createSynPacketToken demoX expiredContext demoAuth = (t2, e2, c2, a2)"
    by (metis prod_cases4)
  have dead: "synExpiration expiredContext \<le> timeNow demoX 0 \<or> synToken expiredContext = []
              \<or> (None :: error option) \<noteq> None"
    by (simp add: demoX_def expiredContext_def)
  note fresh = syn_token_cache [OF r2 rz(1) cs(1), THEN conjunct2, THEN conjunct2, THEN mp, OF dead]
  obtain t3 e3 c3 a3 where r3: "createSynPacketToken noRandomizeX demoContext demoAuth = (t3, e3, c3, a3)"
    by (metis prod_cases4)
  have failed: "synExpiration demoContext \<le> timeNow noRandomizeX 0 \<or> synToken demoContext = []
              \<or> Some (External ''token is too small'') \<noteq> None"
    by simp
  note again = syn_token_cache [OF r3 rz(3) cs(2), THEN conjunct2, THEN conjunct2, THEN mp, OF failed]
  obtain t4 e4 c4 a4 where r4: "createSynPacketToken failX expiredContext demoAuth = (t4, e4, c4, a4)"
    by (metis prod_cases4)
  have dead4: "synExpiration expiredContext \<le> timeNow failX 0 \<or> synToken expiredContext = []
              \<or> (None :: error option) \<noteq> None"
    by (simp add: expiredContext_def)
  note unsigned = syn_token_cache [OF r4 rz(2) cs(3), THEN conjunct2, THEN conjunct2, THEN mp, OF dead4]
  have f1: "t1 = [8, 8] \<and> LocalContext a1 = [4] \<and> synExpiration c1 = 2000"
    using reuse by (simp add: demoContext_def)
  have f2: "t2 = [7, 7] \<and> LocalContext a2 = [5] \<and> synExpiration c2 = 500001000"
    using fresh by (simp add: demoX_def Millisecond_def)
  have f3: "t3 = [7, 7] \<and> LocalContext a3 = [5] \<and> synExpiration c3 = 500001000"
    using again by (simp add: noRandomizeX_def demoX_def Millisecond_def)
  have f4: "t4 = [] \<and> synToken c4 = [] \<and> synExpiration c4 = 0"
    using unsigned by (simp add: expiredContext_def)
  from f1 f2 f3 f4 r1 r2 r3 r4 show ?thesis by simp
qed

subsection \<open>Application SYN-ACK without connection state\<close>

text \<open>
  Claim C10. For a SYN-ACK from the application whose flow hash is in neither the
  application reply cache nor the application origin cache, the entry point returns no
  error exactly when the packet mark is the decimal string of the initial mark value
  minus one, and the error of the lookup (state not found) for any other mark. The
  packet is unchanged, and so is the datapath but for the PU-by-port index, which the
  resolver may update: no connection is created and no connection cache changes.
\<close>

theorem app_synack_without_state:
  assumes "TCPFlags p AND TCPSynAckMask = TCPSynAckMask"
    and "cache_GetReset (appReplyConnectionTracker d) (L4FlowHash X p) = None"
    and "cache_GetReset (appOrigConnectionTracker d) (L4FlowHash X p) = None"
    and "processApplicationTCPPackets X d p = (err, d', p')"
  shows "err = (if Mark p = Itoa (Initialmarkval X - 1) then None else Some AppStateNotFound)
       \<and> p' = p \<and> d' = d\<lparr>puFromPort := puFromPort d'\<rparr>"
  using assms
  by (auto simp: processApplicationTCPPackets_def appRetrieveState_def TCPSynAckMask_def
        TCPSynMask_def Let_def split: if_splits sum.splits)

theorem app_synack_without_state_witness:
  "fst (processApplicationTCPPackets demoX (demoD TCPSynSend demoContext) (demoPacket 0x12 [] [])) = None
   \<and> fst (processApplicationTCPPackets demoX (demoD TCPSynSend demoContext)
            ((demoPacket 0x12 [] [])\<lparr>Mark := ''100''\<rparr>)) = Some AppStateNotFound"
proof -
  let ?d = "demoD TCPSynSend demoContext"
  let ?p = "demoPacket 0x12 [] []"
  let ?q = "(demoPacket 0x12 [] [])\<lparr>Mark := ''100''\<rparr>"
  have f: "TCPFlags ?p AND TCPSynAckMask = TCPSynAckMask" "TCPFlags ?q AND TCPSynAckMask = TCPSynAckMask"
    by (simp_all add: demoPacket_def TCPSynAckMask_def)
  have m: "cache_GetReset (appReplyConnectionTracker ?d) (L4FlowHash demoX ?p) = None"
          "cache_GetReset (appOrigConnectionTracker ?d) (L4FlowHash demoX ?p) = None"
          "cache_GetReset (appReplyConnectionTracker ?d) (L4FlowHash demoX ?q) = None"
          "cache_GetReset (appOrigConnectionTracker ?d) (L4FlowHash demoX ?q) = None"
    by (simp_all add: cache_GetReset_def demoD_def emptyCache_def)
  obtain e d' p' where r: "processApplicationTCPPackets demoX ?d ?p = (e, d', p')"
    by (metis prod_cases3)
  obtain e2 d2 p2 where r2: "processApplicationTCPPackets demoX ?d ?q = (e2, d2, p2)"
    by (metis prod_cases3)
  have "e = None"
    using app_synack_without_state [OF f(1) m(1) m(2) r] by (simp add: demoPacket_def demoX_def itoa_eval)
  moreover have "e2 = Some AppStateNotFound"
    using app_synack_without_state [OF f(2) m(3) m(4) r2] by (simp add: demoPacket_def demoX_def itoa_eval)
  ultimately show ?thesis using r r2 by simp
qed


end
